theory Spec2Isabelle
  imports Complex_Main "HOL-Library.Char_ord" "HOL-Library.List_Lexorder"
begin

text \<open>
  A model of \<open>src/credit_risk_model.py\<close>: the dataclass \<open>CreditRiskModel\<close> with its
  synthetic data generation, PD calibration, scoring and stress methods.

  \<^item> A \<open>DataFrame\<close> is the list of its column names and the list of its rows; the cells
    of a row are typed as the module's data has them.
  \<^item> Floating-point numbers are real numbers, \<open>numpy\<close> integers are integers: a cell
    of a table, a value of the configuration and a scaler is a number, never NaN.  A
    statement about every table is a statement about the tables without NaN cells.
  \<^item> A method takes the instance and returns its result together with the instance
    as the call left it; a raised exception is the \<open>Inl\<close> of the result.
  \<^item> The \<open>numpy\<close> generator and the system clock are inputs: the generator's methods are
    parameters, the current date is an argument of the calls that may read it.
\<close>

section \<open>Numeric helpers\<close>

text \<open>
  \<open>np.clip(a, a_min, a_max)\<close> on a number or a \<open>numpy\<close> array is
  \<open>minimum(maximum(a, a_min), a_max)\<close>; the upper bound wins when the bounds cross.
  (On NaN, which the model does not have, it returns NaN.)
\<close>

definition clip :: "real \<Rightarrow> real \<Rightarrow> real \<Rightarrow> real" where
  "clip a a_min a_max = min (max a a_min) a_max"

text \<open>
  \<open>np.clip\<close> on a \<open>pandas\<close> \<open>Series\<close> calls \<open>Series.clip(lower, upper)\<close>, which first puts
  scalar bounds in order (\<open>lower, upper = min(lower, upper), max(lower, upper)\<close>) and
  then clips each value into them.
\<close>

definition series_clip :: "real \<Rightarrow> real \<Rightarrow> real \<Rightarrow> real" where
  "series_clip a lower upper = clip a (min lower upper) (max lower upper)"

definition mean :: "real list \<Rightarrow> real" where
  "mean xs = sum_list xs / real (length xs)"

section \<open>Data model\<close>

text \<open>
  Calendar dates (\<open>datetime.date\<close>) are day numbers; adding a \<open>timedelta\<close> of
  \<open>d\<close> days adds \<open>d\<close>.
\<close>

type_synonym date = int

text \<open>
  One row of a \<open>DataFrame\<close>.  The record has a field for every column the module
  ever reads or writes; a field carries data only when its name is among the
  \<open>columns\<close> of the frame that holds the row.
\<close>

record row =
  account_id :: string
  as_of_date :: date
  segment :: string
  ead :: real
  lgd :: real
  coupon :: real
  term_months :: int
  pd_estimate :: real
  default_flag :: bool
  realized_lgd :: real
  loss :: real
  period :: int
  pd_calibrated :: real
  expected_loss :: real
  pd_stressed :: real
  lgd_stressed :: real
  expected_loss_stressed :: real

record frame =
  columns :: "string list"
  rows :: "row list"

text \<open>The summary table \<open>calibrate_pd\<close> returns: one dictionary per group.\<close>

record calibration_row =
  cal_segment :: string
  expected_pd :: real
  observed_default_rate :: real
  pd_scaler :: real

datatype error =
    MissingColumns "string list"
  | NoObjectsToConcatenate
  | KeyError string

text \<open>
  The dataclass \<open>CreditRiskModel\<close>.  The type parameter is the state of the
  \<open>numpy\<close> random generator, which is not part of the repository.
\<close>

record 'g credit_risk_model =
  seed :: int
  segments :: "string list"
  base_pd :: "string \<rightharpoonup> real"
  pd_floor :: real
  pd_cap :: real
  lgd_range :: "real \<times> real"
  ead_range :: "int \<times> int"
  coupon_range :: "real \<times> real"
  term_range_months :: "int \<times> int"
  rng :: 'g
  pd_scalers :: "string \<rightharpoonup> real"

section \<open>Frame operations\<close>

text \<open>
  \<open>frame[name] = values\<close>: an existing column keeps its position and is overwritten,
  a new one is appended.  \<open>put\<close> writes one value into the field of that column.
  \<open>pandas\<close> wants one value per row; every call in the module passes as many.
\<close>

definition add_column :: "string \<Rightarrow> string list \<Rightarrow> string list" where
  "add_column name cols = (if name \<in> set cols then cols else cols @ [name])"

definition set_column ::
    "string \<Rightarrow> ('a \<Rightarrow> row \<Rightarrow> row) \<Rightarrow> 'a list \<Rightarrow> frame \<Rightarrow> frame" where
  "set_column name put vals frame =
     \<lparr>columns = add_column name (columns frame),
      rows = map (\<lambda>(v, r). put v r) (zip vals (rows frame))\<rparr>"

text \<open>
  \<open>_require_columns\<close>: raises \<open>ValueError\<close> whose message lists \<open>sorted(missing)\<close>;
  the error value carries that list.
\<close>

definition require_columns :: "frame \<Rightarrow> string list \<Rightarrow> error + unit" where
  "require_columns frame cols =
     (let missing = set cols - set (columns frame)
      in if missing \<noteq> {} then Inl (MissingColumns (sorted_list_of_set missing))
         else Inr ())"

section \<open>Scoring and stress\<close>

definition score_columns :: "string list" where
  "score_columns = [''account_id'', ''segment'', ''ead'', ''lgd'', ''pd_estimate'']"

text \<open>\<open>self.pd_scalers.get(seg, 1.0)\<close>\<close>

definition scaler_of :: "'g credit_risk_model \<Rightarrow> string \<Rightarrow> real" where
  "scaler_of self seg = (case pd_scalers self seg of None \<Rightarrow> 1 | Some s \<Rightarrow> s)"

text \<open>
  Every method takes the instance and returns it with its result, so that what a
  call does to \<open>rng\<close> and \<open>pd_scalers\<close> is part of the model.
\<close>

definition score_portfolio ::
    "'g credit_risk_model \<Rightarrow> frame \<Rightarrow> (error + frame) \<times> 'g credit_risk_model" where
  "score_portfolio self portfolio =
     (case require_columns portfolio score_columns of
        Inl e \<Rightarrow> (Inl e, self)
      | Inr _ \<Rightarrow>
          (let scaled_pd =
                 map (\<lambda>r. clip (pd_estimate r * scaler_of self (segment r))
                               (pd_floor self) (pd_cap self))
                     (rows portfolio);
               portfolio1 =
                 set_column ''pd_calibrated'' (\<lambda>v r. r\<lparr>pd_calibrated := v\<rparr>) scaled_pd portfolio;
               portfolio2 =
                 set_column ''expected_loss'' (\<lambda>v r. r\<lparr>expected_loss := v\<rparr>)
                   (map (\<lambda>r. ead r * lgd r * pd_calibrated r) (rows portfolio1)) portfolio1
           in (Inr portfolio2, self)))"

text \<open>
  \<open>run_stress_scenario(portfolio, pd_multiplier=1.35, lgd_shift=0.05, macro_shock=None)\<close>;
  the defaults are the caller's business here, every argument is passed.  Both clips
  are applied to a \<open>Series\<close>, unlike the clip of the scorer, which is applied to one
  number at a time.
\<close>

definition run_stress_scenario ::
    "'g credit_risk_model \<Rightarrow> frame \<Rightarrow> real \<Rightarrow> real \<Rightarrow> real option
       \<Rightarrow> (error + frame) \<times> 'g credit_risk_model" where
  "run_stress_scenario self portfolio pd_multiplier lgd_shift macro_shock =
     (case score_portfolio self portfolio of
        (Inl e, self1) \<Rightarrow> (Inl e, self1)
      | (Inr scored, self1) \<Rightarrow>
          (let shock = (case macro_shock of Some s \<Rightarrow> s | None \<Rightarrow> 0);
               stressed_pd =
                 map (\<lambda>r. series_clip (pd_calibrated r * pd_multiplier + shock * pd_calibrated r)
                               (pd_floor self1) (pd_cap self1))
                     (rows scored);
               stressed_lgd = map (\<lambda>r. series_clip (lgd r + lgd_shift) 0 1) (rows scored);
               stressed1 =
                 set_column ''pd_stressed'' (\<lambda>v r. r\<lparr>pd_stressed := v\<rparr>) stressed_pd scored;
               stressed2 =
                 set_column ''lgd_stressed'' (\<lambda>v r. r\<lparr>lgd_stressed := v\<rparr>) stressed_lgd stressed1;
               stressed3 =
                 set_column ''expected_loss_stressed'' (\<lambda>v r. r\<lparr>expected_loss_stressed := v\<rparr>)
                   (map (\<lambda>r. ead r * lgd_stressed r * pd_stressed r) (rows stressed2)) stressed2
           in (Inr stressed3, self1)))"

section \<open>Calibration\<close>

definition calibrate_columns :: "string list" where
  "calibrate_columns = [''segment'', ''pd_estimate'', ''default_flag'']"

text \<open>
  \<open>history.groupby("segment")\<close>: the groups come in sorted key order, each with its
  rows in their original order.
\<close>

definition groupby_segment :: "frame \<Rightarrow> (string \<times> row list) list" where
  "groupby_segment history =
     map (\<lambda>seg. (seg, filter (\<lambda>r. segment r = seg) (rows history)))
         (sort (remdups (map segment (rows history))))"

text \<open>The body of the loop over the groups; the mean of a boolean column counts \<open>True\<close> as 1.\<close>

fun calibrate_loop ::
    "(string \<times> row list) list \<Rightarrow> (string \<rightharpoonup> real) \<Rightarrow> calibration_row list
       \<Rightarrow> (string \<rightharpoonup> real) \<times> calibration_row list" where
  "calibrate_loop [] scalers calibration = (scalers, calibration)"
| "calibrate_loop ((seg, frame) # grouped) scalers calibration =
     (let observed_rate = mean (map (\<lambda>r. of_bool (default_flag r)) frame);
          expected_rate = mean (map pd_estimate frame);
          scaler = (if expected_rate = 0 then 1
                    else clip (observed_rate / expected_rate) 0.25 4.0)
      in calibrate_loop grouped (scalers(seg \<mapsto> scaler))
           (calibration @
              [\<lparr>cal_segment = seg, expected_pd = expected_rate,
                observed_default_rate = observed_rate, pd_scaler = scaler\<rparr>]))"

definition calibrate_pd ::
    "'g credit_risk_model \<Rightarrow> frame
       \<Rightarrow> (error + calibration_row list) \<times> 'g credit_risk_model" where
  "calibrate_pd self history =
     (case require_columns history calibrate_columns of
        Inl e \<Rightarrow> (Inl e, self)
      | Inr _ \<Rightarrow>
          (case calibrate_loop (groupby_segment history) (pd_scalers self) [] of
             (scalers, calibration) \<Rightarrow> (Inr calibration, self\<lparr>pd_scalers := scalers\<rparr>)))"

section \<open>The random generator\<close>

text \<open>
  \<open>numpy.random.Generator\<close> is a library object: its constructor and the draw methods
  the module calls are parameters of the model.  A draw takes the generator state and
  returns the drawn array with the next state.  \<open>rng_choice g a size p\<close>,
  \<open>rng_integers g low high size\<close> (high exclusive), \<open>rng_uniform g low high size\<close>,
  \<open>rng_normal g loc scale size\<close>, \<open>rng_binomial g n p\<close> (one draw per entry of p).
\<close>

record 'g generator =
  default_rng :: "int \<Rightarrow> 'g"
  rng_choice :: "'g \<Rightarrow> string list \<Rightarrow> nat \<Rightarrow> real list \<Rightarrow> string list \<times> 'g"
  rng_integers :: "'g \<Rightarrow> int \<Rightarrow> int \<Rightarrow> nat \<Rightarrow> int list \<times> 'g"
  rng_uniform :: "'g \<Rightarrow> real \<Rightarrow> real \<Rightarrow> nat \<Rightarrow> real list \<times> 'g"
  rng_normal :: "'g \<Rightarrow> real \<Rightarrow> real \<Rightarrow> nat \<Rightarrow> real list \<times> 'g"
  rng_binomial :: "'g \<Rightarrow> nat \<Rightarrow> real list \<Rightarrow> int list \<times> 'g"

text \<open>
  What the proofs use of the library: a draw of size n has n entries, \<open>choice\<close> returns
  members of a non-empty population, and a binomial draw with one trial is 0 or 1.
\<close>

definition generator_ok :: "'g generator \<Rightarrow> bool" where
  "generator_ok np \<longleftrightarrow>
     (\<forall>g a size p. length (fst (rng_choice np g a size p)) = size
                  \<and> (a \<noteq> [] \<longrightarrow> set (fst (rng_choice np g a size p)) \<subseteq> set a))
   \<and> (\<forall>g low high size. length (fst (rng_integers np g low high size)) = size)
   \<and> (\<forall>g low high size. length (fst (rng_uniform np g low high size)) = size)
   \<and> (\<forall>g loc scale size. length (fst (rng_normal np g loc scale size)) = size)
   \<and> (\<forall>g p. length (fst (rng_binomial np g 1 p)) = length p
            \<and> set (fst (rng_binomial np g 1 p)) \<subseteq> {0, 1})"

section \<open>Construction\<close>

text \<open>\<open>__post_init__\<close>: seeds the generator and sets every configured segment's scaler to 1.\<close>

definition post_init :: "'g generator \<Rightarrow> 'g credit_risk_model \<Rightarrow> 'g credit_risk_model" where
  "post_init np self =
     self\<lparr>rng := default_rng np (seed self),
          pd_scalers := map_of (map (\<lambda>seg. (seg, 1)) (segments self))\<rparr>"

section \<open>Synthetic data\<close>

definition segment_probs :: "'g credit_risk_model \<Rightarrow> real list" where
  "segment_probs self =
     (if length (segments self) \<noteq> 3
      then replicate (length (segments self)) (1 / real (length (segments self)))
      else [0.45, 0.35, 0.20])"

text \<open>\<open>f"ACC-{i:06d}"\<close>: the decimal digits of i, padded with zeros to six.\<close>

fun decimal :: "nat \<Rightarrow> string" where
  "decimal n =
     (if n < 10 then [char_of (48 + n)]
      else decimal (n div 10) @ [char_of (48 + n mod 10)])"

declare decimal.simps [simp del]

definition account_name :: "nat \<Rightarrow> string" where
  "account_name i =
     ''ACC-'' @ replicate (6 - length (decimal i)) (CHR ''0'') @ decimal i"

text \<open>\<open>[self.base_pd[seg] for seg in segments]\<close>: the first missing key raises.\<close>

fun baseline_pd_of :: "(string \<rightharpoonup> real) \<Rightarrow> string list \<Rightarrow> error + real list" where
  "baseline_pd_of d [] = Inr []"
| "baseline_pd_of d (seg # segs) =
     (case d seg of
        None \<Rightarrow> Inl (KeyError seg)
      | Some v \<Rightarrow>
          (case baseline_pd_of d segs of Inl e \<Rightarrow> Inl e | Inr vs \<Rightarrow> Inr (v # vs)))"

text \<open>
  \<open>generate_baseline_data\<close>.  \<open>today\<close> is what \<open>dt.date.today()\<close> returns when the call
  is made; it is read only when no date is passed.  The generator advances with every
  draw, also when the lookup of a base PD fails afterwards.  The columns the method
  does not create are left at zero in the rows.
\<close>

definition generate_baseline_data ::
    "'g generator \<Rightarrow> date \<Rightarrow> 'g credit_risk_model \<Rightarrow> nat \<Rightarrow> date option
       \<Rightarrow> (error + frame) \<times> 'g credit_risk_model" where
  "generate_baseline_data np today self num_accounts as_of_date_arg =
     (let as_of = (case as_of_date_arg of Some d \<Rightarrow> d | None \<Rightarrow> today);
          probs = segment_probs self;
          (segs, g1) = rng_choice np (rng self) (segments self) num_accounts probs;
          (eads, g2) = rng_integers np g1 (fst (ead_range self)) (snd (ead_range self) + 1)
                         num_accounts;
          (lgds, g3) = rng_uniform np g2 (fst (lgd_range self)) (snd (lgd_range self))
                         num_accounts;
          (coupons, g4) = rng_uniform np g3 (fst (coupon_range self))
                            (snd (coupon_range self)) num_accounts;
          (terms, g5) = rng_integers np g4 (fst (term_range_months self))
                          (snd (term_range_months self) + 1) num_accounts
      in case baseline_pd_of (base_pd self) segs of
           Inl e \<Rightarrow> (Inl e, self\<lparr>rng := g5\<rparr>)
         | Inr baseline_pd \<Rightarrow>
             (let (noise, g6) = rng_normal np g5 1.0 0.15 num_accounts;
                  pd_est = map (\<lambda>(b, z). clip (b * z) (pd_floor self) (pd_cap self))
                               (zip baseline_pd noise);
                  df = \<lparr>columns = [''account_id'', ''as_of_date'', ''segment'', ''ead'', ''lgd'',
                                   ''coupon'', ''term_months'', ''pd_estimate''],
                        rows = map (\<lambda>i. \<lparr>account_id = account_name i, as_of_date = as_of,
                                          segment = segs ! i, ead = real_of_int (eads ! i),
                                          lgd = lgds ! i, coupon = coupons ! i,
                                          term_months = terms ! i, pd_estimate = pd_est ! i,
                                          default_flag = False, realized_lgd = 0, loss = 0,
                                          period = 0, pd_calibrated = 0, expected_loss = 0,
                                          pd_stressed = 0, lgd_stressed = 0,
                                          expected_loss_stressed = 0\<rparr>)
                                   [0..<num_accounts]\<rparr>
              in (Inr df, self\<lparr>rng := g6\<rparr>)))"

text \<open>\<open>pd.concat(records, ignore_index=True)\<close>: raises on an empty list.\<close>

definition pd_concat :: "frame list \<Rightarrow> error + frame" where
  "pd_concat records =
     (case records of
        [] \<Rightarrow> Inl NoObjectsToConcatenate
      | df # dfs \<Rightarrow>
          Inr \<lparr>columns = fold (\<lambda>d cols. fold add_column (columns d) cols) dfs (columns df),
               rows = concat (map rows records)\<rparr>)"

text \<open>
  The loop of \<open>generate_historical_data\<close> over the remaining period indices, with the
  snapshots collected so far.
\<close>

fun historical_loop ::
    "'g generator \<Rightarrow> date \<Rightarrow> date \<Rightarrow> int \<Rightarrow> nat \<Rightarrow> nat list \<Rightarrow> 'g credit_risk_model
       \<Rightarrow> frame list \<Rightarrow> (error + frame list) \<times> 'g credit_risk_model" where
  "historical_loop np today start_date period_length_days accounts_per_period [] self records =
     (Inr records, self)"
| "historical_loop np today start_date period_length_days accounts_per_period (i # is) self
       records =
     (let as_of = start_date + int i * period_length_days
      in case generate_baseline_data np today self accounts_per_period (Some as_of) of
           (Inl e, self1) \<Rightarrow> (Inl e, self1)
         | (Inr snap, self1) \<Rightarrow>
             (let (default_flags, g1) =
                    rng_binomial np (rng self1) 1 (map pd_estimate (rows snap));
                  (realized, g2) =
                    rng_uniform np g1 (fst (lgd_range self1)) (snd (lgd_range self1))
                      accounts_per_period;
                  losses = map (\<lambda>(d, e, l). real_of_int d * e * l)
                               (zip default_flags (zip (map ead (rows snap)) realized));
                  snap1 = set_column ''default_flag'' (\<lambda>v r. r\<lparr>default_flag := v\<rparr>)
                            (map (\<lambda>d. d \<noteq> 0) default_flags) snap;
                  snap2 = set_column ''realized_lgd'' (\<lambda>v r. r\<lparr>realized_lgd := v\<rparr>)
                            realized snap1;
                  snap3 = set_column ''loss'' (\<lambda>v r. r\<lparr>loss := v\<rparr>) losses snap2;
                  snap4 = set_column ''period'' (\<lambda>v r. r\<lparr>period := v\<rparr>)
                            (replicate (length (rows snap3)) (int i + 1)) snap3
              in historical_loop np today start_date period_length_days accounts_per_period is
                   (self1\<lparr>rng := g2\<rparr>) (records @ [snap4])))"

text \<open>
  \<open>generate_historical_data(periods=12, accounts_per_period=500, start_date=None,
  period_length_days=30)\<close>.
\<close>

definition generate_historical_data ::
    "'g generator \<Rightarrow> date \<Rightarrow> 'g credit_risk_model \<Rightarrow> nat \<Rightarrow> nat \<Rightarrow> date option \<Rightarrow> int
       \<Rightarrow> (error + frame) \<times> 'g credit_risk_model" where
  "generate_historical_data np today self periods accounts_per_period start_date_arg
       period_length_days =
     (let start_date = (case start_date_arg of
                          Some d \<Rightarrow> d
                        | None \<Rightarrow> today - int periods * period_length_days)
      in case historical_loop np today start_date period_length_days accounts_per_period
                [0..<periods] self [] of
           (Inl e, self1) \<Rightarrow> (Inl e, self1)
         | (Inr records, self1) \<Rightarrow> (pd_concat records, self1))"

section \<open>Sequences of calls\<close>

text \<open>
  A call of a public method with its arguments.  A program using an instance is a list
  of calls, each made on some day (what \<open>dt.date.today()\<close> returns then).  An exception
  ends the call, not the instance: the next call runs on the state the failed one left.
\<close>

datatype call =
    GenerateBaseline nat "date option"
  | GenerateHistorical nat nat "date option" int
  | CalibratePd frame
  | ScorePortfolio frame
  | RunStressScenario frame real real "real option"

datatype outcome =
    Table "error + frame"
  | Calibration "error + calibration_row list"

fun invoke ::
    "'g generator \<Rightarrow> 'g credit_risk_model \<Rightarrow> date \<times> call \<Rightarrow> outcome \<times> 'g credit_risk_model" where
  "invoke np self (today, GenerateBaseline n d) =
     (case generate_baseline_data np today self n d of (res, self1) \<Rightarrow> (Table res, self1))"
| "invoke np self (today, GenerateHistorical p n d len) =
     (case generate_historical_data np today self p n d len of
        (res, self1) \<Rightarrow> (Table res, self1))"
| "invoke np self (today, CalibratePd history) =
     (case calibrate_pd self history of (res, self1) \<Rightarrow> (Calibration res, self1))"
| "invoke np self (today, ScorePortfolio portfolio) =
     (case score_portfolio self portfolio of (res, self1) \<Rightarrow> (Table res, self1))"
| "invoke np self (today, RunStressScenario portfolio m s k) =
     (case run_stress_scenario self portfolio m s k of (res, self1) \<Rightarrow> (Table res, self1))"

fun run ::
    "'g generator \<Rightarrow> 'g credit_risk_model \<Rightarrow> (date \<times> call) list \<Rightarrow> outcome list" where
  "run np self [] = []"
| "run np self (c # cs) =
     (case invoke np self c of (out, self1) \<Rightarrow> out # run np self1 cs)"

text \<open>A call reads the clock when it generates data and is given no date.\<close>

fun reads_clock :: "call \<Rightarrow> bool" where
  "reads_clock (GenerateBaseline n None) = True"
| "reads_clock (GenerateHistorical p n None len) = True"
| "reads_clock c = False"

fun is_scoring :: "call \<Rightarrow> bool" where
  "is_scoring (ScorePortfolio portfolio) = True"
| "is_scoring (RunStressScenario portfolio m s k) = True"
| "is_scoring c = False"

section \<open>Notions used in the statements\<close>

text \<open>
  A configuration under which generation cannot fail on a lookup: there is a segment to
  choose from and every configured segment has a base PD.
\<close>

definition config_ok :: "'g credit_risk_model \<Rightarrow> bool" where
  "config_ok self \<longleftrightarrow> segments self \<noteq> [] \<and> set (segments self) \<subseteq> dom (base_pd self)"

text \<open>Two instances built from the same constructor arguments.\<close>

definition same_config :: "'g credit_risk_model \<Rightarrow> 'g credit_risk_model \<Rightarrow> bool" where
  "same_config a b \<longleftrightarrow>
     seed a = seed b \<and> segments a = segments b \<and> base_pd a = base_pd b \<and>
     pd_floor a = pd_floor b \<and> pd_cap a = pd_cap b \<and> lgd_range a = lgd_range b \<and>
     ead_range a = ead_range b \<and> coupon_range a = coupon_range b \<and>
     term_range_months a = term_range_months b"

text \<open>
  Two calls are the same call when method and arguments agree; the days on which they
  are made have to agree only where the call reads the clock.
\<close>

definition same_call :: "date \<times> call \<Rightarrow> date \<times> call \<Rightarrow> bool" where
  "same_call x y \<longleftrightarrow> snd x = snd y \<and> (reads_clock (snd x) \<longrightarrow> fst x = fst y)"

text \<open>The rows of the table a call returned; none when it raised.\<close>

definition table_rows :: "(error + frame) \<times> 'g credit_risk_model \<Rightarrow> row list" where
  "table_rows res = (case fst res of Inr fr \<Rightarrow> rows fr | Inl e \<Rightarrow> [])"

definition baseline_columns :: "string list" where
  "baseline_columns = [''account_id'', ''as_of_date'', ''segment'', ''ead'', ''lgd'',
                       ''coupon'', ''term_months'', ''pd_estimate'']"

definition historical_columns :: "string list" where
  "historical_columns =
     baseline_columns @ [''default_flag'', ''realized_lgd'', ''loss'', ''period'']"

text \<open>The snapshot of period index i: n rows tagged i + 1, each with its loss.\<close>

definition period_snapshot :: "nat \<Rightarrow> nat \<Rightarrow> frame \<Rightarrow> bool" where
  "period_snapshot n i fr \<longleftrightarrow>
     columns fr = historical_columns \<and> length (rows fr) = n \<and>
     (\<forall>r \<in> set (rows fr).
        period r = int i + 1 \<and>
        loss r = (if default_flag r then 1 else 0) * ead r * realized_lgd r)"

text \<open>
  The calibration as the specification words it, segment by segment: the observed rate
  is the mean of the default flags of the segment's rows, the expected rate the mean of
  their PD estimates, the scaler their clamped ratio, or 1 when the expected rate is 0.
\<close>

definition segment_rows :: "frame \<Rightarrow> string \<Rightarrow> row list" where
  "segment_rows history seg = filter (\<lambda>r. segment r = seg) (rows history)"

definition spec_observed_rate :: "frame \<Rightarrow> string \<Rightarrow> real" where
  "spec_observed_rate history seg =
     mean (map (\<lambda>r. if default_flag r then 1 else 0) (segment_rows history seg))"

definition spec_expected_rate :: "frame \<Rightarrow> string \<Rightarrow> real" where
  "spec_expected_rate history seg = mean (map pd_estimate (segment_rows history seg))"

definition spec_scaler :: "frame \<Rightarrow> string \<Rightarrow> real" where
  "spec_scaler history seg =
     (if spec_expected_rate history seg = 0 then 1
      else clip (spec_observed_rate history seg / spec_expected_rate history seg) 0.25 4)"

definition spec_summary :: "frame \<Rightarrow> string \<Rightarrow> calibration_row" where
  "spec_summary history seg =
     \<lparr>cal_segment = seg, expected_pd = spec_expected_rate history seg,
      observed_default_rate = spec_observed_rate history seg,
      pd_scaler = spec_scaler history seg\<rparr>"

section \<open>A sample instance\<close>

text \<open>
  A small deterministic generator and the default configuration, on which the
  theorems below are evaluated.
\<close>

definition sample_generator :: "nat generator" where
  "sample_generator =
     \<lparr>default_rng = (\<lambda>s. nat \<bar>s\<bar>),
      rng_choice = (\<lambda>g a size p. (replicate size (a ! (g mod length a)), g + 1)),
      rng_integers = (\<lambda>g low high size. (replicate size low, g + 1)),
      rng_uniform = (\<lambda>g low high size. (replicate size low, g + 1)),
      rng_normal = (\<lambda>g loc scale size. (replicate size loc, g + 1)),
      rng_binomial = (\<lambda>g n p. (map (\<lambda>i. int ((g + i) mod 2)) [0..<length p], g + 1))\<rparr>"

definition default_model :: "'g generator \<Rightarrow> int \<Rightarrow> 'g credit_risk_model" where
  "default_model np s =
     post_init np
       \<lparr>seed = s, segments = [''Prime'', ''Near-Prime'', ''Subprime''],
        base_pd = [''Prime'' \<mapsto> 0.005, ''Near-Prime'' \<mapsto> 0.015, ''Subprime'' \<mapsto> 0.045],
        pd_floor = 0.0005, pd_cap = 0.40, lgd_range = (0.25, 0.65),
        ead_range = (1000, 25000), coupon_range = (0.025, 0.175),
        term_range_months = (12, 72), rng = default_rng np s, pd_scalers = Map.empty\<rparr>"

definition sample_model :: "nat credit_risk_model" where
  "sample_model = default_model sample_generator 42"

definition sample_row :: row where
  "sample_row =
     \<lparr>account_id = ''ACC-000000'', as_of_date = 0, segment = ''Prime'', ead = 1000,
      lgd = 0.5, coupon = 0.05, term_months = 12, pd_estimate = 0.01,
      default_flag = False, realized_lgd = 0, loss = 0, period = 0, pd_calibrated = 0,
      expected_loss = 0, pd_stressed = 0, lgd_stressed = 0, expected_loss_stressed = 0\<rparr>"

text \<open>
  A portfolio with the scorer's columns: a Prime account, and an account of a segment
  the model does not know whose LGD and PD estimate lie outside their nominal ranges.
\<close>

definition sample_portfolio :: frame where
  "sample_portfolio =
     \<lparr>columns = baseline_columns,
      rows = [sample_row,
              sample_row\<lparr>account_id := ''ACC-000001'', segment := ''Unrated'', lgd := 2,
                         pd_estimate := 0.9\<rparr>]\<rparr>"

text \<open>
  A history of four accounts in three segments, one of them with expected rate 0, and
  a table without the PD column.
\<close>

definition sample_history :: frame where
  "sample_history =
     \<lparr>columns = [''segment'', ''pd_estimate'', ''default_flag''],
      rows = [sample_row\<lparr>segment := ''Subprime'', pd_estimate := 0.5, default_flag := True\<rparr>,
              sample_row\<lparr>pd_estimate := 0.01, default_flag := True\<rparr>,
              sample_row\<lparr>segment := ''Other'', pd_estimate := 0\<rparr>,
              sample_row\<lparr>pd_estimate := 0.03\<rparr>]\<rparr>"

definition sample_incomplete :: frame where
  "sample_incomplete = \<lparr>columns = [''segment'', ''ead'', ''default_flag''], rows = []\<rparr>"

section \<open>Lemmas: clipping\<close>

lemma clip_upper: "clip a lo hi \<le> hi"
  by (simp add: clip_def)

lemma clip_lower: "lo \<le> hi \<Longrightarrow> lo \<le> clip a lo hi"
  by (simp add: clip_def)

lemma clip_clip: "clip (clip a lo hi) lo hi = clip a lo hi"
  by (simp add: clip_def min_def max_def)

lemma clip_id: "lo \<le> a \<Longrightarrow> a \<le> hi \<Longrightarrow> clip a lo hi = a"
  by (simp add: clip_def min_def max_def)

lemma series_clip_ordered: "lo \<le> hi \<Longrightarrow> series_clip a lo hi = clip a lo hi"
  by (simp add: series_clip_def)

lemma series_clip_unit: "series_clip a 0 1 = clip a 0 1"
  by (simp add: series_clip_def)

lemma series_clip_between:
  "min lo hi \<le> series_clip a lo hi \<and> series_clip a lo hi \<le> max lo hi"
  by (simp add: series_clip_def clip_def min_def max_def)

lemma series_clip_clip: "series_clip (clip a lo hi) lo hi = clip a lo hi"
  by (simp add: series_clip_def clip_def min_def max_def)

section \<open>Lemmas: column checks and column assignment\<close>

lemma require_columns_Inr:
  "require_columns fr cols = Inr u \<longleftrightarrow> set cols \<subseteq> set (columns fr)"
  by (auto simp: require_columns_def Let_def)

lemma require_columns_Inl:
  "require_columns fr cols = Inl e \<longleftrightarrow>
     \<not> set cols \<subseteq> set (columns fr)
     \<and> e = MissingColumns (sorted_list_of_set (set cols - set (columns fr)))"
  by (auto simp: require_columns_def Let_def)

lemma set_column_length:
  "length vals = length (rows fr) \<Longrightarrow>
     length (rows (set_column name put vals fr)) = length (rows fr)"
  by (simp add: set_column_def)

lemma set_column_nth:
  "length vals = length (rows fr) \<Longrightarrow> i < length (rows fr) \<Longrightarrow>
     rows (set_column name put vals fr) ! i = put (vals ! i) (rows fr ! i)"
  by (simp add: set_column_def)

lemma set_column_columns:
  "columns (set_column name put vals fr) = add_column name (columns fr)"
  by (simp add: set_column_def)

lemma set_add_column: "set (add_column name cols) = insert name (set cols)"
  by (auto simp: add_column_def)

section \<open>Lemmas: scoring\<close>

lemma score_portfolio_ok:
  assumes "set score_columns \<subseteq> set (columns portfolio)"
  shows "score_portfolio self portfolio =
           (Inr \<lparr>columns = add_column ''expected_loss''
                              (add_column ''pd_calibrated'' (columns portfolio)),
                 rows = map (\<lambda>r. r\<lparr>pd_calibrated :=
                                      clip (pd_estimate r * scaler_of self (segment r))
                                        (pd_floor self) (pd_cap self),
                                    expected_loss :=
                                      ead r * lgd r *
                                      clip (pd_estimate r * scaler_of self (segment r))
                                        (pd_floor self) (pd_cap self)\<rparr>)
                            (rows portfolio)\<rparr>,
            self)"
proof -
  have "require_columns portfolio score_columns = Inr ()"
    using assms by (simp add: require_columns_Inr)
  then show ?thesis
    by (simp add: score_portfolio_def Let_def set_column_def zip_map1 zip_same_conv_map o_def)
qed

lemma score_portfolio_missing:
  assumes "\<not> set score_columns \<subseteq> set (columns portfolio)"
  shows "score_portfolio self portfolio =
           (Inl (MissingColumns
                   (sorted_list_of_set (set score_columns - set (columns portfolio)))), self)"
proof -
  have "require_columns portfolio score_columns =
          Inl (MissingColumns (sorted_list_of_set (set score_columns - set (columns portfolio))))"
    using assms by (simp add: require_columns_Inl)
  then show ?thesis by (simp add: score_portfolio_def)
qed

lemma score_portfolio_state: "snd (score_portfolio self portfolio) = self"
  by (cases "set score_columns \<subseteq> set (columns portfolio)")
    (simp_all add: score_portfolio_ok score_portfolio_missing)

section \<open>Lemmas: stress\<close>

lemma run_stress_scenario_ok:
  assumes "set score_columns \<subseteq> set (columns portfolio)"
  shows "\<exists>scored. score_portfolio self portfolio = (Inr scored, self) \<and>
           run_stress_scenario self portfolio m s k =
           (Inr \<lparr>columns = add_column ''expected_loss_stressed''
                     (add_column ''lgd_stressed'' (add_column ''pd_stressed'' (columns scored))),
                 rows = map (\<lambda>r. r\<lparr>pd_stressed :=
                                      series_clip (pd_calibrated r * m
                                              + (case k of Some x \<Rightarrow> x | None \<Rightarrow> 0) * pd_calibrated r)
                                        (pd_floor self) (pd_cap self),
                                    lgd_stressed := clip (lgd r + s) 0 1,
                                    expected_loss_stressed :=
                                      ead r * clip (lgd r + s) 0 1 *
                                      series_clip (pd_calibrated r * m
                                              + (case k of Some x \<Rightarrow> x | None \<Rightarrow> 0) * pd_calibrated r)
                                        (pd_floor self) (pd_cap self)\<rparr>)
                            (rows scored)\<rparr>,
            self)"
  by (simp add: score_portfolio_ok [OF assms] run_stress_scenario_def Let_def
        set_column_def zip_map_map zip_map1 zip_map2 zip_same_conv_map split_def o_def
        series_clip_unit)

lemma run_stress_scenario_missing:
  assumes "\<not> set score_columns \<subseteq> set (columns portfolio)"
  shows "run_stress_scenario self portfolio m s k =
           (Inl (MissingColumns
                   (sorted_list_of_set (set score_columns - set (columns portfolio)))), self)"
  by (simp add: score_portfolio_missing [OF assms] run_stress_scenario_def)

lemma run_stress_scenario_state: "snd (run_stress_scenario self portfolio m s k) = self"
proof (cases "set score_columns \<subseteq> set (columns portfolio)")
  case True
  from run_stress_scenario_ok [OF True, of self m s k] show ?thesis by auto
next
  case False
  then show ?thesis by (simp add: run_stress_scenario_missing)
qed

section \<open>Lemmas: calibration\<close>

lemma calibrate_loop_groups:
  "calibrate_loop (map (\<lambda>seg. (seg, segment_rows history seg)) segs) scalers calibration =
     ((\<lambda>s. if s \<in> set segs then Some (spec_scaler history s) else scalers s),
      calibration @ map (spec_summary history) segs)"
proof (induction segs arbitrary: scalers calibration)
  case Nil
  show ?case by simp
next
  case (Cons seg segs)
  have step: "calibrate_loop (map (\<lambda>seg. (seg, segment_rows history seg)) (seg # segs))
                 scalers calibration =
              calibrate_loop (map (\<lambda>seg. (seg, segment_rows history seg)) segs)
                 (scalers(seg \<mapsto> spec_scaler history seg))
                 (calibration @ [spec_summary history seg])"
    by (simp add: Let_def spec_scaler_def spec_observed_rate_def spec_expected_rate_def
          spec_summary_def of_bool_def)
  have "(\<lambda>s. if s \<in> set segs then Some (spec_scaler history s)
             else (scalers(seg \<mapsto> spec_scaler history seg)) s) =
        (\<lambda>s. if s \<in> set (seg # segs) then Some (spec_scaler history s) else scalers s)"
    by (rule ext) simp
  then show ?case
    unfolding step Cons.IH by simp
qed

lemma calibrate_pd_ok:
  assumes "set calibrate_columns \<subseteq> set (columns history)"
  shows "calibrate_pd self history =
           (Inr (map (spec_summary history) (sort (remdups (map segment (rows history))))),
            self\<lparr>pd_scalers :=
                   (\<lambda>s. if s \<in> segment ` set (rows history)
                        then Some (spec_scaler history s) else pd_scalers self s)\<rparr>)"
proof -
  have "require_columns history calibrate_columns = Inr ()"
    using assms by (simp add: require_columns_Inr)
  moreover have "groupby_segment history =
      map (\<lambda>seg. (seg, segment_rows history seg)) (sort (remdups (map segment (rows history))))"
    by (simp add: groupby_segment_def segment_rows_def)
  ultimately show ?thesis
    by (simp add: calibrate_pd_def calibrate_loop_groups)
qed

lemma calibrate_pd_missing:
  assumes "\<not> set calibrate_columns \<subseteq> set (columns history)"
  shows "calibrate_pd self history =
           (Inl (MissingColumns
                   (sorted_list_of_set (set calibrate_columns - set (columns history)))), self)"
proof -
  have "require_columns history calibrate_columns =
          Inl (MissingColumns (sorted_list_of_set (set calibrate_columns - set (columns history))))"
    using assms by (simp add: require_columns_Inl)
  then show ?thesis by (simp add: calibrate_pd_def)
qed

section \<open>Lemmas: baseline snapshots\<close>

lemma config_ok_rng [simp]: "config_ok (self\<lparr>rng := g\<rparr>) = config_ok self"
  by (simp add: config_ok_def)

lemma baseline_pd_of_length:
  "baseline_pd_of d segs = Inr vs \<Longrightarrow> length vs = length segs"
  by (induction segs arbitrary: vs) (auto split: option.splits sum.splits)

lemma baseline_pd_of_ok:
  "set segs \<subseteq> dom d \<Longrightarrow> \<exists>vs. baseline_pd_of d segs = Inr vs"
  by (induction segs) auto

lemma generate_baseline_data_Inl:
  assumes "baseline_pd_of (base_pd self)
             (fst (rng_choice np (rng self) (segments self) n (segment_probs self))) = Inl e"
  shows "fst (generate_baseline_data np today self n d) = Inl e"
  using assms by (simp add: generate_baseline_data_def Let_def split_def)

lemma generate_baseline_data_Inr:
  assumes np: "generator_ok np"
    and vs: "baseline_pd_of (base_pd self)
               (fst (rng_choice np (rng self) (segments self) n (segment_probs self))) = Inr vs"
  shows "\<exists>fr g. generate_baseline_data np today self n d = (Inr fr, self\<lparr>rng := g\<rparr>)
           \<and> columns fr = baseline_columns \<and> length (rows fr) = n
           \<and> (\<forall>r \<in> set (rows fr). \<exists>x. pd_estimate r = clip x (pd_floor self) (pd_cap self))"
proof -
  have "length (fst (rng_choice np (rng self) (segments self) n (segment_probs self))) = n"
    using np by (simp add: generator_ok_def)
  then have lvs: "length vs = n"
    using baseline_pd_of_length [OF vs] by simp
  have lnorm: "\<And>g loc scale. length (fst (rng_normal np g loc scale n)) = n"
    using np by (simp add: generator_ok_def)
  show ?thesis
    apply (simp add: generate_baseline_data_def Let_def split_def vs baseline_columns_def
          lvs lnorm)
    apply (intro conjI ballI)
     apply (rule exI, rule refl)
    apply (simp add: lvs lnorm)
    apply (rule exI, rule refl)
    done
qed

lemma generate_baseline_data_ok:
  assumes np: "generator_ok np" and cfg: "config_ok self"
  shows "\<exists>fr g. generate_baseline_data np today self n d = (Inr fr, self\<lparr>rng := g\<rparr>)
           \<and> columns fr = baseline_columns \<and> length (rows fr) = n
           \<and> (\<forall>r \<in> set (rows fr). \<exists>x. pd_estimate r = clip x (pd_floor self) (pd_cap self))"
proof -
  let ?c = "rng_choice np (rng self) (segments self) n (segment_probs self)"
  have "set (fst ?c) \<subseteq> set (segments self)"
    using np cfg by (simp add: generator_ok_def config_ok_def)
  then have "set (fst ?c) \<subseteq> dom (base_pd self)"
    using cfg by (auto simp: config_ok_def)
  then obtain vs where "baseline_pd_of (base_pd self) (fst ?c) = Inr vs"
    using baseline_pd_of_ok by blast
  then show ?thesis by (rule generate_baseline_data_Inr [OF np])
qed

section \<open>Lemmas: the historical panel\<close>

lemma snapshot_step:
  fixes np :: "'g generator" and fr :: frame and g g' :: 'g and lo hi :: real and i n :: nat
  assumes np: "generator_ok np"
    and fr: "columns fr = baseline_columns" "length (rows fr) = n"
  defines "flags \<equiv> fst (rng_binomial np g 1 (map pd_estimate (rows fr)))"
  defines "realized \<equiv> fst (rng_uniform np g' lo hi n)"
  defines "losses \<equiv> map (\<lambda>(d, e, l). real_of_int d * e * l)
                       (zip flags (zip (map ead (rows fr)) realized))"
  defines "snap1 \<equiv> set_column ''default_flag'' (\<lambda>v r. r\<lparr>default_flag := v\<rparr>)
                            (map (\<lambda>d. d \<noteq> 0) flags) fr"
  defines "snap2 \<equiv> set_column ''realized_lgd'' (\<lambda>v r. r\<lparr>realized_lgd := v\<rparr>) realized snap1"
  defines "snap3 \<equiv> set_column ''loss'' (\<lambda>v r. r\<lparr>loss := v\<rparr>) losses snap2"
  defines "snap4 \<equiv> set_column ''period'' (\<lambda>v r. r\<lparr>period := v\<rparr>)
                            (replicate (length (rows snap3)) (int i + 1)) snap3"
  shows "period_snapshot n i snap4"
proof -
  have lf: "length flags = n" and sf: "set flags \<subseteq> {0, 1}"
    using np fr by (simp_all add: flags_def generator_ok_def)
  have lr: "length realized = n"
    using np by (simp add: realized_def generator_ok_def)
  have ll: "length losses = n"
    by (simp add: losses_def lf lr fr)
  have l1: "length (rows snap1) = n" by (simp add: snap1_def set_column_length lf fr)
  have l2: "length (rows snap2) = n" by (simp add: snap2_def set_column_length lr l1)
  have l3: "length (rows snap3) = n" by (simp add: snap3_def set_column_length ll l2)
  have l4: "length (rows snap4) = n" by (simp add: snap4_def set_column_length l3)
  have cols: "columns snap4 = historical_columns"
    by (simp add: snap4_def snap3_def snap2_def snap1_def set_column_columns fr
          historical_columns_def baseline_columns_def add_column_def)
  have row: "period (rows snap4 ! j) = int i + 1 \<and>
             loss (rows snap4 ! j) =
               (if default_flag (rows snap4 ! j) then 1 else 0) * ead (rows snap4 ! j)
                 * realized_lgd (rows snap4 ! j)" if j: "j < n" for j
  proof -
    have "flags ! j \<in> set flags" using j lf by simp
    then have f01: "flags ! j = 0 \<or> flags ! j = 1" using sf by auto
    have r4: "rows snap4 ! j =
                (rows fr ! j)\<lparr>default_flag := flags ! j \<noteq> 0, realized_lgd := realized ! j,
                               loss := losses ! j, period := int i + 1\<rparr>"
      using j by (simp add: snap4_def snap3_def snap2_def snap1_def set_column_nth
                    set_column_length lf lr ll fr l1 l2 l3)
    have lj: "losses ! j = real_of_int (flags ! j) * ead (rows fr ! j) * realized ! j"
      using j by (simp add: losses_def lf lr fr)
    show ?thesis using f01 by (auto simp: r4 lj)
  qed
  show ?thesis
    unfolding period_snapshot_def
    using cols l4 row by (auto simp: in_set_conv_nth)
qed

lemma historical_loop_ok:
  assumes np: "generator_ok np" and cfg: "config_ok self"
  shows "\<exists>snaps self1. historical_loop np today start len n idx self records =
                           (Inr (records @ snaps), self1)
           \<and> list_all2 (period_snapshot n) idx snaps"
  using cfg
proof (induction idx arbitrary: self records)
  case Nil
  show ?case by simp
next
  case (Cons i idx)
  obtain fr g where gen: "generate_baseline_data np today self n
                            (Some (start + int i * len)) = (Inr fr, self\<lparr>rng := g\<rparr>)"
    and fr: "columns fr = baseline_columns" "length (rows fr) = n"
    using generate_baseline_data_ok [OF np Cons.prems] by blast
  let ?flags = "fst (rng_binomial np g 1 (map pd_estimate (rows fr)))"
  let ?g1 = "snd (rng_binomial np g 1 (map pd_estimate (rows fr)))"
  let ?realized = "fst (rng_uniform np ?g1 (fst (lgd_range self)) (snd (lgd_range self)) n)"
  let ?g2 = "snd (rng_uniform np ?g1 (fst (lgd_range self)) (snd (lgd_range self)) n)"
  let ?losses = "map (\<lambda>(d, e, l). real_of_int d * e * l)
                     (zip ?flags (zip (map ead (rows fr)) ?realized))"
  let ?snap1 = "set_column ''default_flag'' (\<lambda>v r. r\<lparr>default_flag := v\<rparr>)
                  (map (\<lambda>d. d \<noteq> 0) ?flags) fr"
  let ?snap2 = "set_column ''realized_lgd'' (\<lambda>v r. r\<lparr>realized_lgd := v\<rparr>) ?realized ?snap1"
  let ?snap3 = "set_column ''loss'' (\<lambda>v r. r\<lparr>loss := v\<rparr>) ?losses ?snap2"
  let ?snap4 = "set_column ''period'' (\<lambda>v r. r\<lparr>period := v\<rparr>)
                  (replicate (length (rows ?snap3)) (int i + 1)) ?snap3"
  have snap: "period_snapshot n i ?snap4"
    by (rule snapshot_step [OF np fr])
  have step: "historical_loop np today start len n (i # idx) self records =
              historical_loop np today start len n idx (self\<lparr>rng := ?g2\<rparr>)
                (records @ [?snap4])"
    by (simp add: gen Let_def split_def)
  have "config_ok (self\<lparr>rng := ?g2\<rparr>)"
    using Cons.prems by simp
  from Cons.IH [OF this, of "records @ [?snap4]"]
  obtain snaps self1 where
    rest: "historical_loop np today start len n idx (self\<lparr>rng := ?g2\<rparr>) (records @ [?snap4]) =
             (Inr ((records @ [?snap4]) @ snaps), self1)"
    and all: "list_all2 (period_snapshot n) idx snaps"
    by blast
  have "historical_loop np today start len n (i # idx) self records =
          (Inr (records @ (?snap4 # snaps)), self1)"
    unfolding step rest by simp
  moreover have "list_all2 (period_snapshot n) (i # idx) (?snap4 # snaps)"
    using snap all by simp
  ultimately show ?case by blast
qed

lemma concat_nth_equal_length:
  "\<forall>xs \<in> set xss. length xs = n \<Longrightarrow> i < length xss \<Longrightarrow> j < n \<Longrightarrow>
     concat xss ! (i * n + j) = xss ! i ! j"
proof (induction xss arbitrary: i)
  case Nil
  then show ?case by simp
next
  case (Cons xs xss)
  show ?case
  proof (cases i)
    case 0
    with Cons.prems show ?thesis by (simp add: nth_append)
  next
    case (Suc k)
    with Cons.prems have "concat xss ! (k * n + j) = xss ! k ! j"
      by (intro Cons.IH) auto
    with Suc Cons.prems show ?thesis by (simp add: nth_append add.assoc)
  qed
qed

lemma concat_length_equal_length:
  "\<forall>xs \<in> set xss. length xs = n \<Longrightarrow> length (concat xss) = length xss * n"
  by (induction xss) auto

lemma pd_concat_same_columns:
  "\<forall>d \<in> set dfs. columns d = cols \<Longrightarrow>
     fold (\<lambda>d cs. fold add_column (columns d) cs) dfs cols = cols"
proof (induction dfs)
  case Nil
  show ?case by simp
next
  case (Cons d dfs)
  have "fold add_column xs cols = cols" if "set xs \<subseteq> set cols" for xs
    using that by (induction xs) (simp_all add: add_column_def)
  with Cons show ?case by simp
qed

lemma generate_historical_data_ok:
  assumes np: "generator_ok np" and cfg: "config_ok self" and p: "0 < p"
  shows "\<exists>fr self1. generate_historical_data np today self p n d len = (Inr fr, self1)
           \<and> columns fr = historical_columns
           \<and> length (rows fr) = p * n
           \<and> (\<forall>i < p. \<forall>j < n. period (rows fr ! (i * n + j)) = int i + 1)
           \<and> (\<forall>r \<in> set (rows fr).
                 loss r = (if default_flag r then 1 else 0) * ead r * realized_lgd r)"
proof -
  let ?start = "case d of Some x \<Rightarrow> x | None \<Rightarrow> today - int p * len"
  obtain snaps self1 where
    loop: "historical_loop np today ?start len n [0..<p] self [] = (Inr ([] @ snaps), self1)"
    and all: "list_all2 (period_snapshot n) [0..<p] snaps"
    using historical_loop_ok [OF np cfg] by blast
  have len: "length snaps = p"
    using all by (auto dest: list_all2_lengthD)
  then obtain s ss where snaps: "snaps = s # ss"
    using p by (cases snaps) auto
  have each: "period_snapshot n i (snaps ! i)" if "i < p" for i
    using all that by (auto simp: list_all2_conv_all_nth)
  have lens: "\<forall>xs \<in> set (map rows snaps). length xs = n"
    using each len by (auto simp: in_set_conv_nth period_snapshot_def)
  have colss: "\<forall>d \<in> set snaps. columns d = historical_columns"
    using each len by (auto simp: in_set_conv_nth period_snapshot_def)
  let ?fr = "\<lparr>columns = fold (\<lambda>d cols. fold add_column (columns d) cols) ss (columns s),
              rows = concat (map rows snaps)\<rparr>"
  have res: "generate_historical_data np today self p n d len = (Inr ?fr, self1)"
    using loop by (simp add: generate_historical_data_def pd_concat_def snaps)
  have c: "columns ?fr = historical_columns"
    using colss pd_concat_same_columns [of ss historical_columns] by (simp add: snaps)
  have l: "length (rows ?fr) = p * n"
    using concat_length_equal_length [OF lens] len by simp
  have per: "period (rows ?fr ! (i * n + j)) = int i + 1" if "i < p" "j < n" for i j
  proof -
    have "concat (map rows snaps) ! (i * n + j) = rows (snaps ! i) ! j"
      using concat_nth_equal_length [OF lens, of i j] that len by simp
    moreover have "rows (snaps ! i) ! j \<in> set (rows (snaps ! i))"
      using each [OF that(1)] that(2) by (simp add: period_snapshot_def)
    ultimately show ?thesis
      using each [OF that(1)] by (simp add: period_snapshot_def)
  qed
  have lossp: "loss r = (if default_flag r then 1 else 0) * ead r * realized_lgd r"
    if "r \<in> set (rows ?fr)" for r
  proof -
    from that obtain sn where "sn \<in> set snaps" "r \<in> set (rows sn)" by auto
    then obtain i where "i < p" "sn = snaps ! i"
      using len by (auto simp: in_set_conv_nth)
    with each [of i] \<open>r \<in> set (rows sn)\<close> show ?thesis
      by (simp add: period_snapshot_def)
  qed
  show ?thesis
    using res c l per lossp by blast
qed

section \<open>Lemmas: the clock and the calls\<close>

lemma generate_baseline_data_clock:
  "generate_baseline_data np t1 self n (Some d) = generate_baseline_data np t2 self n (Some d)"
  by (simp add: generate_baseline_data_def)

lemma historical_loop_clock:
  "historical_loop np t1 start len n idx self records =
   historical_loop np t2 start len n idx self records"
proof (induction idx arbitrary: self records)
  case Nil
  show ?case by simp
next
  case (Cons i idx)
  have "generate_baseline_data np t1 self n (Some (start + int i * len)) =
        generate_baseline_data np t2 self n (Some (start + int i * len))"
    by (rule generate_baseline_data_clock)
  then show ?case
    by (simp add: Cons.IH Let_def split_def split: prod.splits sum.splits)
qed

lemma generate_historical_data_clock:
  "generate_historical_data np t1 self p n (Some d) len =
   generate_historical_data np t2 self p n (Some d) len"
  by (simp add: generate_historical_data_def historical_loop_clock [of np t1 _ _ _ _ _ _ t2])

lemma invoke_clock:
  "\<not> reads_clock c \<Longrightarrow> invoke np self (t1, c) = invoke np self (t2, c)"
proof (cases c)
  case (GenerateBaseline n d)
  assume "\<not> reads_clock c"
  with GenerateBaseline obtain x where "d = Some x" by (cases d) auto
  with GenerateBaseline show ?thesis
    by (simp add: generate_baseline_data_clock [of np t1 _ _ _ t2])
next
  case (GenerateHistorical p n d len)
  assume "\<not> reads_clock c"
  with GenerateHistorical obtain x where "d = Some x" by (cases d) auto
  with GenerateHistorical show ?thesis
    by (simp add: generate_historical_data_clock [of np t1 _ _ _ _ _ t2])
qed simp_all

lemma run_same_calls:
  "list_all2 same_call xs ys \<Longrightarrow> run np self xs = run np self ys"
proof (induction xs ys arbitrary: self rule: list_all2_induct)
  case Nil
  show ?case by simp
next
  case (Cons x xs y ys)
  have "invoke np self x = invoke np self y"
  proof (cases "reads_clock (snd x)")
    case True
    with Cons.hyps(1) have "x = y" by (simp add: same_call_def prod_eq_iff)
    then show ?thesis by simp
  next
    case False
    with Cons.hyps(1) invoke_clock [of "snd x" np self "fst x" "fst y"]
    show ?thesis by (cases x; cases y) (simp add: same_call_def)
  qed
  then show ?case by (simp add: Cons.IH split: prod.splits)
qed

lemma post_init_same_config: "same_config a b \<Longrightarrow> post_init np a = post_init np b"
  by (cases a, cases b) (simp add: same_config_def post_init_def)

lemma invoke_scoring_state: "is_scoring (snd c) \<Longrightarrow> snd (invoke np self c) = self"
proof (cases c)
  case (Pair today cl)
  assume "is_scoring (snd c)"
  with Pair show ?thesis
    by (cases cl)
      (simp_all add: split_def score_portfolio_state run_stress_scenario_state)
qed

lemma run_without_scoring:
  "map snd (filter (\<lambda>(c, out). \<not> is_scoring (snd c)) (zip cs (run np self cs))) =
   run np self (filter (\<lambda>c. \<not> is_scoring (snd c)) cs)"
proof (induction cs arbitrary: self)
  case Nil
  show ?case by simp
next
  case (Cons c cs)
  obtain out self1 where inv: "invoke np self c = (out, self1)"
    by (cases "invoke np self c")
  show ?case
  proof (cases "is_scoring (snd c)")
    case True
    then have "self1 = self" using invoke_scoring_state [of c np self] inv by simp
    with True inv show ?thesis by (simp add: Cons.IH)
  next
    case False
    with inv show ?thesis by (simp add: Cons.IH)
  qed
qed

section \<open>Lemmas: the sample instance\<close>

lemma sample_generator_ok: "generator_ok sample_generator"
  by (auto simp: generator_ok_def sample_generator_def)

lemma sample_model_eq:
  "sample_model =
     \<lparr>seed = 42, segments = [''Prime'', ''Near-Prime'', ''Subprime''],
      base_pd = [''Prime'' \<mapsto> 0.005, ''Near-Prime'' \<mapsto> 0.015, ''Subprime'' \<mapsto> 0.045],
      pd_floor = 0.0005, pd_cap = 0.40, lgd_range = (0.25, 0.65),
      ead_range = (1000, 25000), coupon_range = (0.025, 0.175),
      term_range_months = (12, 72), rng = 42,
      pd_scalers = map_of [(''Prime'', 1), (''Near-Prime'', 1), (''Subprime'', 1)]\<rparr>"
  by (simp add: sample_model_def default_model_def post_init_def sample_generator_def)

lemma sample_config_ok: "config_ok sample_model"
  by (simp add: sample_model_eq config_ok_def)

text \<open>
  The panel of two periods of two accounts on the sample instance: four rows, tagged
  1, 1, 2, 2, the second account of each period in default.
\<close>

lemma sample_panel:
  "map period (table_rows
       (generate_historical_data sample_generator 7 sample_model 2 2 None 30)) = [1, 1, 2, 2] \<and>
   map default_flag (table_rows
       (generate_historical_data sample_generator 7 sample_model 2 2 None 30)) =
     [False, True, False, True] \<and>
   map loss (table_rows
       (generate_historical_data sample_generator 7 sample_model 2 2 None 30)) =
     [0, 250, 0, 250]"
  by code_simp

section \<open>Lemmas: bounds\<close>

lemma score_columns_set:
  "set score_columns = {''account_id'', ''segment'', ''ead'', ''lgd'', ''pd_estimate''}"
  by (simp add: score_columns_def)

lemma calibrate_columns_set:
  "set calibrate_columns = {''segment'', ''pd_estimate'', ''default_flag''}"
  by (simp add: calibrate_columns_def)

lemma table_rows_Inr [simp]: "table_rows (Inr fr, self) = rows fr"
  by (simp add: table_rows_def)

lemma table_rows_Inl [simp]: "table_rows (Inl e, self) = []"
  by (simp add: table_rows_def)

lemma generated_pd_estimate_bounds:
  assumes np: "generator_ok np" and le: "pd_floor self \<le> pd_cap self"
    and r: "r \<in> set (table_rows (generate_baseline_data np today self n d))"
  shows "pd_floor self \<le> pd_estimate r \<and> pd_estimate r \<le> pd_cap self"
proof (cases "baseline_pd_of (base_pd self)
                (fst (rng_choice np (rng self) (segments self) n (segment_probs self)))")
  case (Inl e)
  from generate_baseline_data_Inl [OF Inl, of today d] r show ?thesis
    by (simp add: table_rows_def)
next
  case (Inr vs)
  from generate_baseline_data_Inr [OF np Inr, of today d]
  obtain fr g where "generate_baseline_data np today self n d = (Inr fr, self\<lparr>rng := g\<rparr>)"
    and "\<forall>r \<in> set (rows fr). \<exists>x. pd_estimate r = clip x (pd_floor self) (pd_cap self)"
    by blast
  with r obtain x where "pd_estimate r = clip x (pd_floor self) (pd_cap self)"
    by fastforce
  with le show ?thesis by (simp add: clip_lower clip_upper)
qed

lemma scored_pd_calibrated_bounds:
  assumes le: "pd_floor self \<le> pd_cap self"
    and r: "r \<in> set (table_rows (score_portfolio self portfolio))"
  shows "pd_floor self \<le> pd_calibrated r \<and> pd_calibrated r \<le> pd_cap self"
proof (cases "set score_columns \<subseteq> set (columns portfolio)")
  case True
  with r le show ?thesis
    by (auto simp: score_portfolio_ok clip_lower clip_upper)
next
  case False
  with r show ?thesis by (simp add: score_portfolio_missing)
qed

lemma scored_pd_estimate_unchanged:
  assumes "set score_columns \<subseteq> set (columns portfolio)"
  shows "map pd_estimate (table_rows (score_portfolio self portfolio)) =
         map pd_estimate (rows portfolio)"
  by (simp add: score_portfolio_ok [OF assms] o_def)

lemma stressed_bounds:
  assumes le: "pd_floor self \<le> pd_cap self"
    and r: "r \<in> set (table_rows (run_stress_scenario self portfolio m s k))"
  shows "pd_floor self \<le> pd_calibrated r \<and> pd_calibrated r \<le> pd_cap self \<and>
         pd_floor self \<le> pd_stressed r \<and> pd_stressed r \<le> pd_cap self \<and>
         0 \<le> lgd_stressed r \<and> lgd_stressed r \<le> 1"
proof (cases "set score_columns \<subseteq> set (columns portfolio)")
  case True
  from run_stress_scenario_ok [OF True, of self m s k]
  obtain scored where sc: "score_portfolio self portfolio = (Inr scored, self)"
    and st: "table_rows (run_stress_scenario self portfolio m s k) =
               map (\<lambda>r. r\<lparr>pd_stressed :=
                              series_clip (pd_calibrated r * m
                                      + (case k of Some x \<Rightarrow> x | None \<Rightarrow> 0) * pd_calibrated r)
                                (pd_floor self) (pd_cap self),
                            lgd_stressed := clip (lgd r + s) 0 1,
                            expected_loss_stressed :=
                              ead r * clip (lgd r + s) 0 1 *
                              series_clip (pd_calibrated r * m
                                      + (case k of Some x \<Rightarrow> x | None \<Rightarrow> 0) * pd_calibrated r)
                                (pd_floor self) (pd_cap self)\<rparr>)
                   (rows scored)"
    by auto
  from r st obtain q where q: "q \<in> set (rows scored)"
    and rq: "r = q\<lparr>pd_stressed :=
                      series_clip (pd_calibrated q * m
                              + (case k of Some x \<Rightarrow> x | None \<Rightarrow> 0) * pd_calibrated q)
                        (pd_floor self) (pd_cap self),
                    lgd_stressed := clip (lgd q + s) 0 1,
                    expected_loss_stressed :=
                      ead q * clip (lgd q + s) 0 1 *
                      series_clip (pd_calibrated q * m
                              + (case k of Some x \<Rightarrow> x | None \<Rightarrow> 0) * pd_calibrated q)
                        (pd_floor self) (pd_cap self)\<rparr>"
    by auto
  from q sc have "q \<in> set (table_rows (score_portfolio self portfolio))" by simp
  from scored_pd_calibrated_bounds [OF le this] le show ?thesis
    by (simp add: rq clip_lower clip_upper series_clip_ordered)
next
  case False
  with r show ?thesis by (simp add: run_stress_scenario_missing)
qed

lemma stressed_pd_estimate_unchanged:
  assumes "set score_columns \<subseteq> set (columns portfolio)"
  shows "map pd_estimate (table_rows (run_stress_scenario self portfolio m s k)) =
         map pd_estimate (rows portfolio)"
proof -
  from run_stress_scenario_ok [OF assms, of self m s k]
  obtain scored where sc: "score_portfolio self portfolio = (Inr scored, self)"
    and st: "map pd_estimate (table_rows (run_stress_scenario self portfolio m s k)) =
             map pd_estimate (rows scored)"
    by (auto simp: o_def)
  from scored_pd_estimate_unchanged [OF assms, of self] sc st show ?thesis by simp
qed

section \<open>Bounds of the PD and LGD columns (C1)\<close>

text \<open>
  C1, as stated, fails for \<open>pd_estimate\<close> in scored rows: \<open>score_portfolio\<close> passes the
  input's \<open>pd_estimate\<close> through, so a row scored from a PD estimate of 0.9 keeps 0.9,
  above the cap 0.4 of the default configuration (whose floor is below its cap).
\<close>

theorem scored_pd_estimate_counterexample:
  "pd_floor sample_model \<le> pd_cap sample_model \<and>
   map pd_estimate (table_rows (score_portfolio sample_model sample_portfolio)) = [1 / 100, 9 / 10] \<and>
   \<not> 9 / 10 \<le> pd_cap sample_model"
  by code_simp

text \<open>
  C1, amended: given \<open>pd_floor \<le> pd_cap\<close>, and for inputs without NaN (no NaN cell in
  the table scored or stressed, no NaN scaler, no NaN in the configuration), every row
  produced by \<open>generate_baseline_data\<close> has \<open>pd_estimate\<close> within \<open>[pd_floor, pd_cap]\<close>;
  every row produced by \<open>score_portfolio\<close> has \<open>pd_calibrated\<close> within these bounds;
  every row produced by \<open>run_stress_scenario\<close> has \<open>pd_calibrated\<close> and \<open>pd_stressed\<close>
  within them and \<open>lgd_stressed\<close> within \<open>[0, 1]\<close>.  In scored and stressed rows
  \<open>pd_estimate\<close> is the input's, unchanged.  The restriction to inputs without NaN is
  that of the model, whose numbers are reals: the clips return NaN on NaN, and the
  methods accept tables with NaN cells, whose rows the statement does not cover.
\<close>

theorem pd_bounds:
  assumes "generator_ok np" and "pd_floor self \<le> pd_cap self"
  shows "(\<forall>r \<in> set (table_rows (generate_baseline_data np today self n d)).
            pd_floor self \<le> pd_estimate r \<and> pd_estimate r \<le> pd_cap self) \<and>
         (\<forall>r \<in> set (table_rows (score_portfolio self portfolio)).
            pd_floor self \<le> pd_calibrated r \<and> pd_calibrated r \<le> pd_cap self) \<and>
         (\<forall>r \<in> set (table_rows (run_stress_scenario self portfolio m s k)).
            pd_floor self \<le> pd_calibrated r \<and> pd_calibrated r \<le> pd_cap self \<and>
            pd_floor self \<le> pd_stressed r \<and> pd_stressed r \<le> pd_cap self \<and>
            0 \<le> lgd_stressed r \<and> lgd_stressed r \<le> 1) \<and>
         ({''account_id'', ''segment'', ''ead'', ''lgd'', ''pd_estimate''}
            \<subseteq> set (columns portfolio) \<longrightarrow>
          map pd_estimate (table_rows (score_portfolio self portfolio)) =
            map pd_estimate (rows portfolio) \<and>
          map pd_estimate (table_rows (run_stress_scenario self portfolio m s k)) =
            map pd_estimate (rows portfolio))"
proof (intro conjI ballI impI)
  fix r assume "r \<in> set (table_rows (generate_baseline_data np today self n d))"
  from generated_pd_estimate_bounds [OF assms this]
  show "pd_floor self \<le> pd_estimate r" and "pd_estimate r \<le> pd_cap self" by simp_all
next
  fix r assume "r \<in> set (table_rows (score_portfolio self portfolio))"
  from scored_pd_calibrated_bounds [OF assms(2) this]
  show "pd_floor self \<le> pd_calibrated r" and "pd_calibrated r \<le> pd_cap self" by simp_all
next
  fix r assume "r \<in> set (table_rows (run_stress_scenario self portfolio m s k))"
  from stressed_bounds [OF assms(2) this]
  show "pd_floor self \<le> pd_calibrated r" and "pd_calibrated r \<le> pd_cap self"
    and "pd_floor self \<le> pd_stressed r" and "pd_stressed r \<le> pd_cap self"
    and "0 \<le> lgd_stressed r" and "lgd_stressed r \<le> 1" by simp_all
next
  assume "{''account_id'', ''segment'', ''ead'', ''lgd'', ''pd_estimate''}
            \<subseteq> set (columns portfolio)"
  then have c: "set score_columns \<subseteq> set (columns portfolio)"
    by (simp add: score_columns_set)
  show "map pd_estimate (table_rows (score_portfolio self portfolio)) =
          map pd_estimate (rows portfolio)"
    by (rule scored_pd_estimate_unchanged [OF c])
  show "map pd_estimate (table_rows (run_stress_scenario self portfolio m s k)) =
          map pd_estimate (rows portfolio)"
    by (rule stressed_pd_estimate_unchanged [OF c])
qed

theorem pd_bounds_witness:
  "generator_ok sample_generator \<and> pd_floor sample_model \<le> pd_cap sample_model \<and>
   map pd_estimate (table_rows (generate_baseline_data sample_generator 7 sample_model 2 None))
     = [1 / 200, 1 / 200] \<and>
   map pd_calibrated (table_rows (score_portfolio sample_model sample_portfolio))
     = [1 / 100, 2 / 5] \<and>
   map pd_stressed (table_rows (run_stress_scenario sample_model sample_portfolio 1.35 0.05 None))
     = [27 / 2000, 2 / 5] \<and>
   map lgd_stressed (table_rows (run_stress_scenario sample_model sample_portfolio 1.35 0.05 None))
     = [11 / 20, 1]"
proof -
  have le: "pd_floor sample_model \<le> pd_cap sample_model" by code_simp
  have ev: "map pd_estimate (table_rows (generate_baseline_data sample_generator 7 sample_model 2 None))
     = [1 / 200, 1 / 200] \<and>
   map pd_calibrated (table_rows (score_portfolio sample_model sample_portfolio))
     = [1 / 100, 2 / 5] \<and>
   map pd_stressed (table_rows (run_stress_scenario sample_model sample_portfolio 1.35 0.05 None))
     = [27 / 2000, 2 / 5] \<and>
   map lgd_stressed (table_rows (run_stress_scenario sample_model sample_portfolio 1.35 0.05 None))
     = [11 / 20, 1]" by code_simp
  show ?thesis
    using pd_bounds [OF sample_generator_ok le, of 7 2 None sample_portfolio "1.35" "0.05" None]
      sample_generator_ok le ev
    by blast
qed

section \<open>Determinism (C2)\<close>

text \<open>
  C2, as stated, fails: \<open>generate_baseline_data\<close> without a date reads the clock, so the
  same call on the same instance state returns a different \<open>as_of_date\<close> column on
  another day.
\<close>

theorem clock_counterexample:
  "run sample_generator sample_model [(0, GenerateBaseline 1 None)] \<noteq>
   run sample_generator sample_model [(1, GenerateBaseline 1 None)]"
  by code_simp

text \<open>
  C2, amended: two instances constructed with the same seed and configuration and
  invoked with the same sequence of calls with the same arguments return identical
  outputs, provided that each call that omits its date (and so reads the current date)
  is made on the same day for both instances.
\<close>

theorem same_seed_same_outputs:
  assumes "same_config a b" and "list_all2 same_call xs ys"
  shows "run np (post_init np a) xs = run np (post_init np b) ys"
proof -
  have "post_init np a = post_init np b"
    using assms(1) by (rule post_init_same_config)
  moreover have "run np (post_init np b) xs = run np (post_init np b) ys"
    using assms(2) by (rule run_same_calls)
  ultimately show ?thesis by simp
qed

theorem same_seed_same_outputs_witness:
  "same_config (sample_model\<lparr>rng := 1\<rparr>) (sample_model\<lparr>rng := 2, pd_scalers := Map.empty\<rparr>) \<and>
   list_all2 same_call
     [(3, GenerateBaseline 1 (Some 5)), (3, ScorePortfolio sample_portfolio),
      (4, GenerateHistorical 1 1 None 30)]
     [(8, GenerateBaseline 1 (Some 5)), (9, ScorePortfolio sample_portfolio),
      (4, GenerateHistorical 1 1 None 30)] \<and>
   run sample_generator (post_init sample_generator (sample_model\<lparr>rng := 1\<rparr>))
     [(3, GenerateBaseline 1 (Some 5)), (3, ScorePortfolio sample_portfolio),
      (4, GenerateHistorical 1 1 None 30)] =
   run sample_generator
     (post_init sample_generator (sample_model\<lparr>rng := 2, pd_scalers := Map.empty\<rparr>))
     [(8, GenerateBaseline 1 (Some 5)), (9, ScorePortfolio sample_portfolio),
      (4, GenerateHistorical 1 1 None 30)]"
proof -
  have c: "same_config (sample_model\<lparr>rng := 1\<rparr>)
             (sample_model\<lparr>rng := 2, pd_scalers := Map.empty\<rparr>)"
    by (simp add: same_config_def)
  have l: "list_all2 same_call
     [(3, GenerateBaseline 1 (Some 5)), (3, ScorePortfolio sample_portfolio),
      (4, GenerateHistorical 1 1 None 30)]
     [(8, GenerateBaseline 1 (Some 5)), (9, ScorePortfolio sample_portfolio),
      (4, GenerateHistorical 1 1 None 30)]"
    by (simp add: same_call_def)
  show ?thesis
    using same_seed_same_outputs [OF c l, of sample_generator] c l by blast
qed

section \<open>Missing columns (C3)\<close>

text \<open>
  C3: \<open>calibrate_pd\<close> and \<open>score_portfolio\<close> raise the missing-columns error exactly when
  a required column (\<open>segment\<close>, \<open>pd_estimate\<close>, \<open>default_flag\<close> for calibration;
  \<open>account_id\<close>, \<open>segment\<close>, \<open>ead\<close>, \<open>lgd\<close>, \<open>pd_estimate\<close> for scoring) is not among the
  table's columns; the error carries the sorted list of the missing names, and no other
  error is raised.
\<close>

theorem missing_columns_error:
  "((\<exists>e. fst (calibrate_pd self history) = Inl e) \<longleftrightarrow>
      \<not> {''segment'', ''pd_estimate'', ''default_flag''} \<subseteq> set (columns history)) \<and>
   (\<forall>e. fst (calibrate_pd self history) = Inl e \<longrightarrow>
      e = MissingColumns
            (sorted_list_of_set
               ({''segment'', ''pd_estimate'', ''default_flag''} - set (columns history)))) \<and>
   ((\<exists>e. fst (score_portfolio self portfolio) = Inl e) \<longleftrightarrow>
      \<not> {''account_id'', ''segment'', ''ead'', ''lgd'', ''pd_estimate''}
          \<subseteq> set (columns portfolio)) \<and>
   (\<forall>e. fst (score_portfolio self portfolio) = Inl e \<longrightarrow>
      e = MissingColumns
            (sorted_list_of_set
               ({''account_id'', ''segment'', ''ead'', ''lgd'', ''pd_estimate''}
                  - set (columns portfolio))))"
proof -
  have cal: "(\<exists>e. fst (calibrate_pd self history) = Inl e) \<longleftrightarrow>
               \<not> set calibrate_columns \<subseteq> set (columns history)"
    by (cases "set calibrate_columns \<subseteq> set (columns history)")
      (simp_all add: calibrate_pd_ok calibrate_pd_missing)
  have cal_e: "e = MissingColumns
                     (sorted_list_of_set (set calibrate_columns - set (columns history)))"
    if "fst (calibrate_pd self history) = Inl e" for e
    using that
    by (cases "set calibrate_columns \<subseteq> set (columns history)")
      (simp_all add: calibrate_pd_ok calibrate_pd_missing)
  have sc: "(\<exists>e. fst (score_portfolio self portfolio) = Inl e) \<longleftrightarrow>
              \<not> set score_columns \<subseteq> set (columns portfolio)"
    by (cases "set score_columns \<subseteq> set (columns portfolio)")
      (simp_all add: score_portfolio_ok score_portfolio_missing)
  have sc_e: "e = MissingColumns
                    (sorted_list_of_set (set score_columns - set (columns portfolio)))"
    if "fst (score_portfolio self portfolio) = Inl e" for e
    using that
    by (cases "set score_columns \<subseteq> set (columns portfolio)")
      (simp_all add: score_portfolio_ok score_portfolio_missing)
  show ?thesis
    using cal cal_e sc sc_e
    unfolding score_columns_set calibrate_columns_set by blast
qed

theorem missing_columns_error_witness:
  "fst (calibrate_pd sample_model sample_incomplete) = Inl (MissingColumns [''pd_estimate'']) \<and>
   fst (score_portfolio sample_model sample_incomplete) =
     Inl (MissingColumns [''account_id'', ''lgd'', ''pd_estimate'']) \<and>
   \<not> isl (fst (calibrate_pd sample_model sample_history)) \<and>
   \<not> isl (fst (score_portfolio sample_model sample_portfolio))"
proof -
  have ev: "fst (calibrate_pd sample_model sample_incomplete) = Inl (MissingColumns [''pd_estimate'']) \<and>
   fst (score_portfolio sample_model sample_incomplete) =
     Inl (MissingColumns [''account_id'', ''lgd'', ''pd_estimate'']) \<and>
   \<not> isl (fst (calibrate_pd sample_model sample_history)) \<and>
   \<not> isl (fst (score_portfolio sample_model sample_portfolio))"
    by code_simp
  show ?thesis
    using missing_columns_error [of sample_model sample_incomplete sample_incomplete] ev
    by blast
qed

section \<open>Scoring (C4)\<close>

text \<open>
  C4: on every table that has the required columns \<open>score_portfolio\<close> succeeds and
  sets, in each row, \<open>pd_calibrated\<close> to the PD estimate times the scaler of the row's
  segment (1 when the calibration state has no entry for it), clamped to
  \<open>[pd_floor, pd_cap]\<close>, and \<open>expected_loss\<close> to \<open>ead * lgd * pd_calibrated\<close>; nothing else
  in the row changes.
\<close>

theorem score_portfolio_rows:
  assumes "{''account_id'', ''segment'', ''ead'', ''lgd'', ''pd_estimate''}
             \<subseteq> set (columns portfolio)"
  shows "\<exists>scored.
           score_portfolio self portfolio = (Inr scored, self) \<and>
           rows scored =
             map (\<lambda>r. r\<lparr>pd_calibrated :=
                          clip (pd_estimate r *
                                  (case pd_scalers self (segment r) of
                                     Some scaler \<Rightarrow> scaler | None \<Rightarrow> 1))
                            (pd_floor self) (pd_cap self),
                        expected_loss :=
                          ead r * lgd r *
                          clip (pd_estimate r *
                                  (case pd_scalers self (segment r) of
                                     Some scaler \<Rightarrow> scaler | None \<Rightarrow> 1))
                            (pd_floor self) (pd_cap self)\<rparr>)
                 (rows portfolio) \<and>
           (\<forall>r \<in> set (rows scored). expected_loss r = ead r * lgd r * pd_calibrated r) \<and>
           set (columns scored) =
             set (columns portfolio) \<union> {''pd_calibrated'', ''expected_loss''}"
proof -
  have c: "set score_columns \<subseteq> set (columns portfolio)"
    using assms by (simp add: score_columns_set)
  have s: "scaler_of self seg =
             (case pd_scalers self seg of Some scaler \<Rightarrow> scaler | None \<Rightarrow> 1)" for seg
    by (simp add: scaler_of_def split: option.splits)
  show ?thesis
    unfolding score_portfolio_ok [OF c] s
    by (auto simp: set_add_column)
qed

theorem score_portfolio_rows_witness:
  "{''account_id'', ''segment'', ''ead'', ''lgd'', ''pd_estimate''}
     \<subseteq> set (columns sample_portfolio) \<and>
   pd_scalers sample_model ''Unrated'' = None \<and>
   map segment (rows sample_portfolio) = [''Prime'', ''Unrated''] \<and>
   map pd_calibrated (table_rows (score_portfolio sample_model sample_portfolio))
     = [1 / 100, 2 / 5] \<and>
   map expected_loss (table_rows (score_portfolio sample_model sample_portfolio))
     = [5, 800]"
proof -
  have h: "{''account_id'', ''segment'', ''ead'', ''lgd'', ''pd_estimate''}
             \<subseteq> set (columns sample_portfolio)"
    by code_simp
  have ev: "pd_scalers sample_model ''Unrated'' = None \<and>
   map segment (rows sample_portfolio) = [''Prime'', ''Unrated''] \<and>
   map pd_calibrated (table_rows (score_portfolio sample_model sample_portfolio))
     = [1 / 100, 2 / 5] \<and>
   map expected_loss (table_rows (score_portfolio sample_model sample_portfolio))
     = [5, 800]"
    by code_simp
  show ?thesis
    using score_portfolio_rows [OF h, of sample_model] h ev by blast
qed

section \<open>Calibration (C5, C8)\<close>

text \<open>
  C5: on every history that has the required columns \<open>calibrate_pd\<close> returns one
  summary row per segment present in the history, in sorted order, holding the mean of
  the segment's PD estimates, the mean of its default flags, and the scaler: their ratio
  clamped to \<open>[0.25, 4]\<close>, or 1 when the expected rate is exactly 0.  It stores that
  scaler in the calibration state under the segment.
\<close>

theorem calibrate_pd_scalers:
  assumes "{''segment'', ''pd_estimate'', ''default_flag''} \<subseteq> set (columns history)"
  shows "\<exists>self1.
           calibrate_pd self history =
             (Inr (map (spec_summary history)
                     (sorted_list_of_set (segment ` set (rows history)))), self1) \<and>
           (\<forall>seg \<in> segment ` set (rows history).
              pd_scalers self1 seg = Some (spec_scaler history seg))"
proof -
  have c: "set calibrate_columns \<subseteq> set (columns history)"
    using assms by (simp add: calibrate_columns_set)
  have "sorted_list_of_set (segment ` set (rows history)) =
          sort (remdups (map segment (rows history)))"
    using sorted_list_of_set_sort_remdups [of "map segment (rows history)"] by simp
  then show ?thesis
    unfolding calibrate_pd_ok [OF c] by simp
qed

theorem calibrate_pd_scalers_witness:
  "{''segment'', ''pd_estimate'', ''default_flag''} \<subseteq> set (columns sample_history) \<and>
   fst (calibrate_pd sample_model sample_history) =
     Inr [\<lparr>cal_segment = ''Other'', expected_pd = 0, observed_default_rate = 0,
            pd_scaler = 1\<rparr>,
          \<lparr>cal_segment = ''Prime'', expected_pd = 1 / 50, observed_default_rate = 1 / 2,
            pd_scaler = 4\<rparr>,
          \<lparr>cal_segment = ''Subprime'', expected_pd = 1 / 2, observed_default_rate = 1,
            pd_scaler = 2\<rparr>] \<and>
   map (pd_scalers (snd (calibrate_pd sample_model sample_history)))
     [''Other'', ''Prime'', ''Subprime''] = [Some 1, Some 4, Some 2]"
proof -
  have h: "{''segment'', ''pd_estimate'', ''default_flag''} \<subseteq> set (columns sample_history)"
    by code_simp
  have ev: "fst (calibrate_pd sample_model sample_history) =
     Inr [\<lparr>cal_segment = ''Other'', expected_pd = 0, observed_default_rate = 0,
            pd_scaler = 1\<rparr>,
          \<lparr>cal_segment = ''Prime'', expected_pd = 1 / 50, observed_default_rate = 1 / 2,
            pd_scaler = 4\<rparr>,
          \<lparr>cal_segment = ''Subprime'', expected_pd = 1 / 2, observed_default_rate = 1,
            pd_scaler = 2\<rparr>] \<and>
   map (pd_scalers (snd (calibrate_pd sample_model sample_history)))
     [''Other'', ''Prime'', ''Subprime''] = [Some 1, Some 4, Some 2]"
    by code_simp
  show ?thesis
    using calibrate_pd_scalers [OF h, of sample_model] h ev by blast
qed

text \<open>
  C8: after \<open>calibrate_pd\<close>, the scaler of every segment that does not occur in the
  history's segment column is what it was before the call, whether the call succeeded
  or raised.
\<close>

theorem calibrate_pd_frame:
  assumes "seg \<notin> segment ` set (rows history)"
  shows "pd_scalers (snd (calibrate_pd self history)) seg = pd_scalers self seg"
proof (cases "set calibrate_columns \<subseteq> set (columns history)")
  case True
  with assms show ?thesis by (simp add: calibrate_pd_ok)
next
  case False
  then show ?thesis by (simp add: calibrate_pd_missing)
qed

theorem calibrate_pd_frame_witness:
  "''Near-Prime'' \<notin> segment ` set (rows sample_history) \<and>
   pd_scalers sample_model ''Near-Prime'' = Some 1 \<and>
   pd_scalers (snd (calibrate_pd sample_model sample_history)) ''Near-Prime'' = Some 1 \<and>
   pd_scalers sample_model ''Prime'' = Some 1 \<and>
   pd_scalers (snd (calibrate_pd sample_model sample_history)) ''Prime'' = Some 4"
proof -
  have h: "''Near-Prime'' \<notin> segment ` set (rows sample_history)"
    by code_simp
  have ev: "pd_scalers sample_model ''Near-Prime'' = Some 1 \<and>
   pd_scalers (snd (calibrate_pd sample_model sample_history)) ''Near-Prime'' = Some 1 \<and>
   pd_scalers sample_model ''Prime'' = Some 1 \<and>
   pd_scalers (snd (calibrate_pd sample_model sample_history)) ''Prime'' = Some 4"
    by code_simp
  show ?thesis
    using calibrate_pd_frame [OF h, of sample_model] h ev by blast
qed

section \<open>Stress (C6, C7)\<close>

text \<open>
  C6: on every table the scorer accepts, \<open>run_stress_scenario\<close> scores the input and
  then, with the shock being \<open>macro_shock\<close> if given and 0 otherwise, sets in each scored
  row \<open>pd_stressed\<close> to \<open>pd_calibrated * pd_multiplier + shock * pd_calibrated\<close> clamped to
  \<open>[pd_floor, pd_cap]\<close>, \<open>lgd_stressed\<close> to \<open>lgd + lgd_shift\<close> clamped to \<open>[0, 1]\<close> and
  \<open>expected_loss_stressed\<close> to \<open>ead * lgd_stressed * pd_stressed\<close>; the result has the
  scored columns and these three.  The clamp of the stressed PD is that of a \<open>Series\<close>:
  with \<open>pd_floor \<le> pd_cap\<close> it is \<open>min (max x pd_floor) pd_cap\<close>, and should the
  configured bounds be crossed it clamps between them all the same.
\<close>

theorem run_stress_scenario_rows:
  assumes "{''account_id'', ''segment'', ''ead'', ''lgd'', ''pd_estimate''}
             \<subseteq> set (columns portfolio)"
  shows "\<exists>scored stressed.
           score_portfolio self portfolio = (Inr scored, self) \<and>
           run_stress_scenario self portfolio pd_multiplier lgd_shift macro_shock =
             (Inr stressed, self) \<and>
           rows stressed =
             map (\<lambda>r. r\<lparr>pd_stressed :=
                          series_clip (pd_calibrated r * pd_multiplier
                                  + (case macro_shock of Some shock \<Rightarrow> shock | None \<Rightarrow> 0)
                                    * pd_calibrated r)
                            (pd_floor self) (pd_cap self),
                        lgd_stressed := clip (lgd r + lgd_shift) 0 1,
                        expected_loss_stressed :=
                          ead r * clip (lgd r + lgd_shift) 0 1 *
                          series_clip (pd_calibrated r * pd_multiplier
                                  + (case macro_shock of Some shock \<Rightarrow> shock | None \<Rightarrow> 0)
                                    * pd_calibrated r)
                            (pd_floor self) (pd_cap self)\<rparr>)
                 (rows scored) \<and>
           (pd_floor self \<le> pd_cap self \<longrightarrow>
              map pd_stressed (rows stressed) =
                map (\<lambda>r. min (max (pd_calibrated r * pd_multiplier
                                       + (case macro_shock of Some shock \<Rightarrow> shock | None \<Rightarrow> 0)
                                         * pd_calibrated r)
                                    (pd_floor self))
                               (pd_cap self))
                    (rows scored)) \<and>
           map lgd_stressed (rows stressed) =
             map (\<lambda>r. min (max (lgd r + lgd_shift) 0) 1) (rows scored) \<and>
           (\<forall>r \<in> set (rows stressed).
              expected_loss_stressed r = ead r * lgd_stressed r * pd_stressed r) \<and>
           set (columns stressed) =
             set (columns scored) \<union> {''pd_stressed'', ''lgd_stressed'', ''expected_loss_stressed''}"
proof -
  have c: "set score_columns \<subseteq> set (columns portfolio)"
    using assms by (simp add: score_columns_set)
  from run_stress_scenario_ok [OF c, of self pd_multiplier lgd_shift macro_shock]
  obtain scored where
    sc: "score_portfolio self portfolio = (Inr scored, self)" and
    st: "run_stress_scenario self portfolio pd_multiplier lgd_shift macro_shock =
           (Inr \<lparr>columns = add_column ''expected_loss_stressed''
                     (add_column ''lgd_stressed'' (add_column ''pd_stressed'' (columns scored))),
                 rows = map (\<lambda>r. r\<lparr>pd_stressed :=
                                      series_clip (pd_calibrated r * pd_multiplier
                                              + (case macro_shock of Some x \<Rightarrow> x | None \<Rightarrow> 0)
                                                * pd_calibrated r)
                                        (pd_floor self) (pd_cap self),
                                    lgd_stressed := clip (lgd r + lgd_shift) 0 1,
                                    expected_loss_stressed :=
                                      ead r * clip (lgd r + lgd_shift) 0 1 *
                                      series_clip (pd_calibrated r * pd_multiplier
                                              + (case macro_shock of Some x \<Rightarrow> x | None \<Rightarrow> 0)
                                                * pd_calibrated r)
                                        (pd_floor self) (pd_cap self)\<rparr>)
                            (rows scored)\<rparr>,
            self)"
    by blast
  show ?thesis
    unfolding sc st
    by (auto simp: set_add_column series_clip_ordered o_def) (simp_all add: clip_def)
qed

theorem run_stress_scenario_rows_witness:
  "{''account_id'', ''segment'', ''ead'', ''lgd'', ''pd_estimate''}
     \<subseteq> set (columns sample_portfolio) \<and>
   pd_floor sample_model \<le> pd_cap sample_model \<and>
   map pd_stressed
     (table_rows (run_stress_scenario sample_model sample_portfolio 1.35 0.05 (Some 0.1)))
     = [29 / 2000, 2 / 5] \<and>
   map lgd_stressed
     (table_rows (run_stress_scenario sample_model sample_portfolio 1.35 0.05 (Some 0.1)))
     = [11 / 20, 1] \<and>
   map expected_loss_stressed
     (table_rows (run_stress_scenario sample_model sample_portfolio 1.35 0.05 (Some 0.1)))
     = [319 / 40, 400] \<and>
   map pd_calibrated
     (table_rows (run_stress_scenario (sample_model\<lparr>pd_floor := 0.4, pd_cap := 0.1\<rparr>)
                    sample_portfolio 1.35 0.05 None))
     = [1 / 10, 1 / 10] \<and>
   map pd_stressed
     (table_rows (run_stress_scenario (sample_model\<lparr>pd_floor := 0.4, pd_cap := 0.1\<rparr>)
                    sample_portfolio 1.35 0.05 None))
     = [27 / 200, 27 / 200]"
proof -
  have h: "{''account_id'', ''segment'', ''ead'', ''lgd'', ''pd_estimate''}
             \<subseteq> set (columns sample_portfolio)"
    by code_simp
  have le: "pd_floor sample_model \<le> pd_cap sample_model"
    by code_simp
  have ev: "map pd_stressed
     (table_rows (run_stress_scenario sample_model sample_portfolio 1.35 0.05 (Some 0.1)))
     = [29 / 2000, 2 / 5] \<and>
   map lgd_stressed
     (table_rows (run_stress_scenario sample_model sample_portfolio 1.35 0.05 (Some 0.1)))
     = [11 / 20, 1] \<and>
   map expected_loss_stressed
     (table_rows (run_stress_scenario sample_model sample_portfolio 1.35 0.05 (Some 0.1)))
     = [319 / 40, 400]"
    by code_simp
  have crossed: "map pd_calibrated
     (table_rows (run_stress_scenario (sample_model\<lparr>pd_floor := 0.4, pd_cap := 0.1\<rparr>)
                    sample_portfolio 1.35 0.05 None))
     = [1 / 10, 1 / 10] \<and>
   map pd_stressed
     (table_rows (run_stress_scenario (sample_model\<lparr>pd_floor := 0.4, pd_cap := 0.1\<rparr>)
                    sample_portfolio 1.35 0.05 None))
     = [27 / 200, 27 / 200]"
    by code_simp
  show ?thesis
    using run_stress_scenario_rows [OF h, of sample_model "1.35" "0.05" "Some 0.1"]
      h le ev crossed
    by blast
qed

text \<open>
  C7, as stated, fails: the scorer accepts a row whose LGD is 2; its expected loss is
  computed from 2, its stressed expected loss from the LGD clamped to 1.  With
  multiplier 1, shift 0 and shock 0 the second sample account has expected loss 800
  and stressed expected loss 400.
\<close>

theorem neutral_stress_counterexample:
  "set score_columns \<subseteq> set (columns sample_portfolio) \<and>
   map expected_loss (table_rows (score_portfolio sample_model sample_portfolio)) = [5, 800] \<and>
   map expected_loss_stressed
     (table_rows (run_stress_scenario sample_model sample_portfolio 1 0 (Some 0))) = [5, 400]"
  by code_simp

text \<open>
  C7, amended: for every portfolio the scorer accepts, stress with multiplier 1, shift 0
  and shock 0 yields, in every row whose \<open>lgd\<close> lies in \<open>[0, 1]\<close>, an
  \<open>expected_loss_stressed\<close> equal to the \<open>expected_loss\<close> that scoring the same portfolio
  gives; in every row it equals \<open>ead\<close> times the \<open>lgd\<close> clamped to \<open>[0, 1]\<close> times
  \<open>pd_calibrated\<close>.
\<close>

theorem neutral_stress:
  assumes "{''account_id'', ''segment'', ''ead'', ''lgd'', ''pd_estimate''}
             \<subseteq> set (columns portfolio)"
  shows "\<exists>scored stressed.
           score_portfolio self portfolio = (Inr scored, self) \<and>
           run_stress_scenario self portfolio 1 0 (Some 0) = (Inr stressed, self) \<and>
           length (rows scored) = length (rows portfolio) \<and>
           length (rows stressed) = length (rows portfolio) \<and>
           (\<forall>i < length (rows portfolio).
              expected_loss_stressed (rows stressed ! i) =
                ead (rows portfolio ! i) * clip (lgd (rows portfolio ! i)) 0 1
                  * pd_calibrated (rows scored ! i) \<and>
              (0 \<le> lgd (rows portfolio ! i) \<and> lgd (rows portfolio ! i) \<le> 1 \<longrightarrow>
                 expected_loss_stressed (rows stressed ! i) = expected_loss (rows scored ! i)))"
proof -
  have c: "set score_columns \<subseteq> set (columns portfolio)"
    using assms by (simp add: score_columns_set)
  from run_stress_scenario_ok [OF c, of self 1 0 "Some 0"]
  obtain scored where
    sc: "score_portfolio self portfolio = (Inr scored, self)" and
    st: "run_stress_scenario self portfolio 1 0 (Some 0) =
           (Inr \<lparr>columns = add_column ''expected_loss_stressed''
                     (add_column ''lgd_stressed'' (add_column ''pd_stressed'' (columns scored))),
                 rows = map (\<lambda>r. r\<lparr>pd_stressed :=
                                      series_clip (pd_calibrated r * 1
                                              + (case Some 0 of Some x \<Rightarrow> x | None \<Rightarrow> 0)
                                                * pd_calibrated r)
                                        (pd_floor self) (pd_cap self),
                                    lgd_stressed := clip (lgd r + 0) 0 1,
                                    expected_loss_stressed :=
                                      ead r * clip (lgd r + 0) 0 1 *
                                      series_clip (pd_calibrated r * 1
                                              + (case Some 0 of Some x \<Rightarrow> x | None \<Rightarrow> 0)
                                                * pd_calibrated r)
                                        (pd_floor self) (pd_cap self)\<rparr>)
                            (rows scored)\<rparr>,
            self)"
    by blast
  have rs: "rows scored =
              map (\<lambda>r. r\<lparr>pd_calibrated :=
                           clip (pd_estimate r * scaler_of self (segment r))
                             (pd_floor self) (pd_cap self),
                         expected_loss :=
                           ead r * lgd r *
                           clip (pd_estimate r * scaler_of self (segment r))
                             (pd_floor self) (pd_cap self)\<rparr>)
                  (rows portfolio)"
    using sc unfolding score_portfolio_ok [OF c] by auto
  show ?thesis
    unfolding sc st
    by (simp add: rs series_clip_clip clip_id)
qed

theorem neutral_stress_witness:
  "{''account_id'', ''segment'', ''ead'', ''lgd'', ''pd_estimate''}
     \<subseteq> set (columns sample_portfolio) \<and>
   0 \<le> lgd (rows sample_portfolio ! 0) \<and> lgd (rows sample_portfolio ! 0) \<le> 1 \<and>
   expected_loss (table_rows (score_portfolio sample_model sample_portfolio) ! 0) = 5 \<and>
   expected_loss_stressed
     (table_rows (run_stress_scenario sample_model sample_portfolio 1 0 (Some 0)) ! 0) = 5"
proof -
  have h: "{''account_id'', ''segment'', ''ead'', ''lgd'', ''pd_estimate''}
             \<subseteq> set (columns sample_portfolio)"
    by code_simp
  have ev: "0 \<le> lgd (rows sample_portfolio ! 0) \<and> lgd (rows sample_portfolio ! 0) \<le> 1 \<and>
   expected_loss (table_rows (score_portfolio sample_model sample_portfolio) ! 0) = 5 \<and>
   expected_loss_stressed
     (table_rows (run_stress_scenario sample_model sample_portfolio 1 0 (Some 0)) ! 0) = 5"
    by code_simp
  show ?thesis
    using neutral_stress [OF h, of sample_model] h ev by blast
qed

section \<open>The historical panel (C9)\<close>

text \<open>
  C9 holds for one period or more (lemma \<open>generate_historical_data_ok\<close>), but with
  \<open>periods = 0\<close> the list of snapshots is empty and \<open>pd.concat\<close> raises instead of
  returning a table of 0 rows.
\<close>

theorem historical_zero_periods:
  "fst (generate_historical_data np today self 0 accounts_per_period start_date
          period_length_days) = Inl NoObjectsToConcatenate"
  by (simp add: generate_historical_data_def pd_concat_def)

section \<open>Scoring and stress leave the instance alone (C10)\<close>

text \<open>
  C10: \<open>score_portfolio\<close> and \<open>run_stress_scenario\<close> return the instance as they found it,
  generator state and calibration state included; hence the outputs of the other calls
  of a sequence are those of the sequence with the scoring and stress calls removed.
\<close>

theorem scoring_leaves_state:
  "snd (score_portfolio self portfolio) = self \<and>
   rng (snd (score_portfolio self portfolio)) = rng self \<and>
   pd_scalers (snd (score_portfolio self portfolio)) = pd_scalers self \<and>
   snd (run_stress_scenario self portfolio m s k) = self \<and>
   rng (snd (run_stress_scenario self portfolio m s k)) = rng self \<and>
   pd_scalers (snd (run_stress_scenario self portfolio m s k)) = pd_scalers self \<and>
   map snd (filter (\<lambda>(c, out). \<not> is_scoring (snd c)) (zip cs (run np self cs))) =
     run np self (filter (\<lambda>c. \<not> is_scoring (snd c)) cs)"
  by (simp add: score_portfolio_state run_stress_scenario_state run_without_scoring)

theorem scoring_leaves_state_witness:
  "rng (snd (score_portfolio sample_model sample_portfolio)) = 42 \<and>
   rng (snd (run_stress_scenario sample_model sample_portfolio 1.35 0.05 None)) = 42 \<and>
   rng sample_model = 42 \<and>
   map snd (filter (\<lambda>(c, out). \<not> is_scoring (snd c))
     (zip [(0 :: date, GenerateBaseline 1 None), (0, ScorePortfolio sample_portfolio),
           (0, RunStressScenario sample_portfolio 1.35 0.05 None),
           (0, GenerateBaseline 1 None)]
          (run sample_generator sample_model
             [(0, GenerateBaseline 1 None), (0, ScorePortfolio sample_portfolio),
              (0, RunStressScenario sample_portfolio 1.35 0.05 None),
              (0, GenerateBaseline 1 None)]))) =
   run sample_generator sample_model
     [(0, GenerateBaseline 1 None), (0, GenerateBaseline 1 None)]"
proof -
  let ?cs = "[(0 :: date, GenerateBaseline 1 None), (0, ScorePortfolio sample_portfolio),
              (0, RunStressScenario sample_portfolio 1.35 0.05 None),
              (0, GenerateBaseline 1 None)]"
  have ev: "rng sample_model = 42" by code_simp
  have f: "filter (\<lambda>c. \<not> is_scoring (snd c)) ?cs =
             [(0, GenerateBaseline 1 None), (0, GenerateBaseline 1 None)]"
    by simp
  note t = scoring_leaves_state
             [of sample_model sample_portfolio "1.35" "0.05" None ?cs sample_generator]
  from t have a: "rng (snd (score_portfolio sample_model sample_portfolio)) = rng sample_model"
    by (elim conjE)
  from t have b: "rng (snd (run_stress_scenario sample_model sample_portfolio 1.35 0.05 None))
                    = rng sample_model"
    by (elim conjE)
  from t have c: "map snd (filter (\<lambda>(c, out). \<not> is_scoring (snd c))
                     (zip ?cs (run sample_generator sample_model ?cs))) =
                  run sample_generator sample_model (filter (\<lambda>c. \<not> is_scoring (snd c)) ?cs)"
    by (elim conjE)
  show ?thesis
    using a [unfolded ev] b [unfolded ev] ev c [unfolded f] by (intro conjI)
qed

end
